theory Spec2Isabelle
  imports Complex_Main "HOL-Library.Char_ord" "HOL-Library.List_Lexorder"
    "HOL-Library.Product_Lexorder"
begin

section \<open>Data model\<close>

text \<open>
  A cell of an object column of a DataFrame: a Python string, the float NaN that
  \<^verbatim>\<open>read_csv\<close> puts where a field is missing, or the \<^verbatim>\<open>None\<close> that
  \<^verbatim>\<open>df[col] = None\<close> stores. Amounts are Python floats, idealised as reals;
  \<open>None\<close> in the amount column stands for NaN.
\<close>

datatype cell = Str string | NaN | PyNone

text \<open>
  One row of the table with the columns date, category, amount. The type of the date
  column is a parameter: \<open>cell\<close> for a table as loaded or displayed, \<open>'t option\<close> once
  \<^verbatim>\<open>pd.to_datetime\<close> has replaced the column (\<open>None\<close> is NaT), \<open>'t\<close> after
  \<^verbatim>\<open>dropna\<close>.
\<close>

record 'd row =
  date :: 'd
  category :: cell
  amount :: "real option"

type_synonym expense = "cell row"

datatype py_error = ZeroDivisionError | EmptyDataError | ParserError | KeyError | TypeError

text \<open>
  The library functions the program calls and whose algorithms are not part of the
  repository. Every theorem below holds for any value of this record.
  \<^item> \<open>to_datetime col c\<close>: what \<^verbatim>\<open>pd.to_datetime(col, errors="coerce")\<close> gives for the
    cell \<open>c\<close> of the column \<open>col\<close> (the column is an argument because pandas may infer
    one format for the whole column); \<open>None\<close> is NaT.
  \<^item> \<open>to_datetime_scalar s\<close>: \<^verbatim>\<open>pd.to_datetime(s, errors="coerce")\<close> for one string.
  \<^item> \<open>comparable col t\<close>: whether pandas can order the datetime column
    \<^verbatim>\<open>pd.to_datetime(col, errors="coerce")\<close>, or a selection of its rows, against the
    Timestamp \<open>t\<close>. It cannot when one of the two carries a time zone and the other does
    not: then \<^verbatim>\<open>df["date"] >= t\<close> and \<^verbatim>\<open>df["date"] <= t\<close> raise \<^verbatim>\<open>TypeError\<close>.
  \<^item> \<open>strftime t\<close>: \<^verbatim>\<open>t.strftime("%Y-%m-%d")\<close>.
  \<^item> \<open>to_period_M t\<close>: the ordinal of \<^verbatim>\<open>t.to_period("M")\<close> (months are ordered by it).
  \<^item> \<open>to_numeric col c\<close>: \<^verbatim>\<open>pd.to_numeric(col, errors="coerce")\<close> at the cell \<open>c\<close> of a
    column as \<^verbatim>\<open>read_csv\<close> returned it; \<open>None\<close> is NaN.
  \<^item> \<open>float_repr x\<close>: the text \<^verbatim>\<open>to_csv\<close> writes for the float \<open>x\<close>.
  \<^item> \<open>str_lower s\<close>: Python's \<^verbatim>\<open>str.lower\<close> on a text \<open>s\<close> that is not pure ASCII (a
    \<open>string\<close> holds the bytes of the text).
  \<^item> \<open>astype_str_keeps_na\<close>: whether \<^verbatim>\<open>.astype(str)\<close> leaves a missing value missing, as
    pandas 3 does; earlier versions turn NaN into the text \<^verbatim>\<open>nan\<close> and \<^verbatim>\<open>None\<close> into the
    text \<^verbatim>\<open>None\<close>.
  Timestamps are any linearly ordered type \<open>'t\<close>; the order is used only between a
  column and a timestamp that are comparable.
\<close>

record 't pandas =
  to_datetime :: "cell list \<Rightarrow> cell \<Rightarrow> 't option"
  to_datetime_scalar :: "string \<Rightarrow> 't option"
  comparable :: "cell list \<Rightarrow> 't \<Rightarrow> bool"
  strftime :: "'t \<Rightarrow> string"
  to_period_M :: "'t \<Rightarrow> int"
  to_numeric :: "cell list \<Rightarrow> cell \<Rightarrow> real option"
  float_repr :: "real \<Rightarrow> string"
  str_lower :: "string \<Rightarrow> string"
  astype_str_keeps_na :: bool

section \<open>The durable store: \<^verbatim>\<open>expenses.csv\<close>\<close>

text \<open>
  The file after tokenisation: the names of its header line and, for every other
  non-blank line, its fields as text. The store is \<open>None\<close> while \<^verbatim>\<open>DATA_FILE\<close> does not
  exist.
\<close>

record csv_file =
  header :: "string list"
  body :: "string list list"

type_synonym store = "csv_file option"

text \<open>A DataFrame with arbitrary columns, as \<^verbatim>\<open>read_csv\<close> returns it: column-wise.\<close>

record frame =
  nrows :: nat
  columns :: "(string \<times> cell list) list"

definition expected_cols :: "string list" where
  "expected_cols = [''date'', ''category'', ''amount'']"

text \<open>The strings \<^verbatim>\<open>read_csv\<close> reads as NaN by default (\<^verbatim>\<open>keep_default_na=True\<close>).\<close>

definition na_values :: "string list" where
  "na_values = ['''', ''#N/A'', ''#N/A N/A'', ''#NA'', ''-1.#IND'', ''-1.#QNAN'', ''-NaN'',
     ''-nan'', ''1.#IND'', ''1.#QNAN'', ''<NA>'', ''N/A'', ''NA'', ''NULL'', ''NaN'', ''None'',
     ''n/a'', ''nan'', ''null'']"

definition read_field :: "string \<Rightarrow> cell" where
  "read_field s = (if s \<in> set na_values then NaN else Str s)"

text \<open>
  \<^verbatim>\<open>pd.read_csv(DATA_FILE)\<close> on files whose lines have at most as many fields as the
  header: an empty file raises \<^verbatim>\<open>EmptyDataError\<close> and a line shorter than the header is
  padded with NaN. A cell keeps the text of its field; the numeric types pandas infers
  for a column of numerals are not modelled. A file with a line longer than the header
  is not covered: pandas raises \<^verbatim>\<open>ParserError\<close> for it, except where the extra
  fields of the first line make an index, and here it is \<^verbatim>\<open>ParserError\<close> throughout.
\<close>

definition read_csv :: "csv_file \<Rightarrow> py_error + frame" where
  "read_csv f =
     (if header f = [] then Inl EmptyDataError
      else if \<exists>r \<in> set (body f). length (header f) < length r then Inl ParserError
      else Inr \<lparr>nrows = length (body f),
                columns = map (\<lambda>i. (header f ! i,
                                 map (\<lambda>r. if i < length r then read_field (r ! i) else NaN) (body f)))
                            [0..<length (header f)]\<rparr>)"

definition cell_text :: "cell \<Rightarrow> string" where
  "cell_text c = (case c of Str s \<Rightarrow> s | NaN \<Rightarrow> '''' | PyNone \<Rightarrow> '''')"

text \<open>\<^verbatim>\<open>df.to_csv(DATA_FILE, index=False)\<close> for a table of expenses: missing values are written
  as empty fields.\<close>

definition to_csv :: "'t pandas \<Rightarrow> expense list \<Rightarrow> csv_file" where
  "to_csv L df =
     \<lparr>header = expected_cols,
      body = map (\<lambda>r. [cell_text (date r), cell_text (category r),
                       (case amount r of None \<Rightarrow> '''' | Some x \<Rightarrow> float_repr L x)]) df\<rparr>"

text \<open>\<^verbatim>\<open>_init_file\<close>: an empty DataFrame with the three columns, written to the file.\<close>

definition init_file :: "'t pandas \<Rightarrow> store \<Rightarrow> frame \<times> store" where
  "init_file L st =
     (let df = \<lparr>nrows = 0, columns = map (\<lambda>c. (c, [])) expected_cols\<rparr>
      in (df, Some (to_csv L [])))"

text \<open>\<^verbatim>\<open>df[col]\<close>: the first column of that name, \<^verbatim>\<open>KeyError\<close> when there is none.\<close>

definition getitem :: "frame \<Rightarrow> string \<Rightarrow> py_error + cell list" where
  "getitem df col = (case map_of (columns df) col of None \<Rightarrow> Inl KeyError | Some v \<Rightarrow> Inr v)"

text \<open>\<^verbatim>\<open>if col not in df.columns: df[col] = None\<close>\<close>

definition ensure_column :: "string \<Rightarrow> frame \<Rightarrow> frame" where
  "ensure_column col df =
     (if col \<notin> set (map fst (columns df))
      then df\<lparr>columns := columns df @ [(col, replicate (nrows df) PyNone)]\<rparr>
      else df)"

definition fillna :: "real \<Rightarrow> real option \<Rightarrow> real option" where
  "fillna v x = (case x of None \<Rightarrow> Some v | Some y \<Rightarrow> Some y)"

definition load_data :: "'t pandas \<Rightarrow> store \<Rightarrow> py_error + (expense list \<times> store)" where
  "load_data L st =
     (case (case st of
              None \<Rightarrow> Inr (init_file L st)
            | Some f \<Rightarrow> (case read_csv f of Inl e \<Rightarrow> Inl e | Inr df \<Rightarrow> Inr (df, st))) of
        Inl e \<Rightarrow> Inl e
      | Inr (df, st') \<Rightarrow>
          let df = fold ensure_column expected_cols df
          in case getitem df ''date'' of Inl e \<Rightarrow> Inl e | Inr dates \<Rightarrow>
             case getitem df ''category'' of Inl e \<Rightarrow> Inl e | Inr categories \<Rightarrow>
             case getitem df ''amount'' of Inl e \<Rightarrow> Inl e | Inr amounts \<Rightarrow>
               let amounts = map (\<lambda>c. fillna 0 (to_numeric L amounts c)) amounts
               in Inr (map (\<lambda>(d, c, a). \<lparr>date = d, category = c, amount = a\<rparr>)
                         (zip dates (zip categories amounts)), st'))"

definition save_data :: "'t pandas \<Rightarrow> expense list \<Rightarrow> store \<Rightarrow> store" where
  "save_data L df st = Some (to_csv L df)"

definition add_expense ::
  "'t pandas \<Rightarrow> string \<Rightarrow> string \<Rightarrow> real \<Rightarrow> store \<Rightarrow> py_error + (expense list \<times> store)" where
  "add_expense L d c a st =
     (case load_data L st of
        Inl e \<Rightarrow> Inl e
      | Inr (df, st1) \<Rightarrow>
          let new_row = \<lparr>date = Str d, category = Str c, amount = Some a\<rparr>;
              df = df @ [new_row]
          in Inr (df, save_data L df st1))"

section \<open>Filtering\<close>

text \<open>\<^verbatim>\<open>df["date"] = pd.to_datetime(df["date"], errors="coerce")\<close>\<close>

definition parse_dates :: "'t pandas \<Rightarrow> expense list \<Rightarrow> 't option row list" where
  "parse_dates L df =
     map (\<lambda>r. \<lparr>date = to_datetime L (map date df) (date r), category = category r,
               amount = amount r\<rparr>) df"

text \<open>Comparisons of a datetime column with a timestamp: NaT compares false.\<close>

definition ts_ge :: "'t::linorder option \<Rightarrow> 't \<Rightarrow> bool" where
  "ts_ge d s = (case d of None \<Rightarrow> False | Some t \<Rightarrow> s \<le> t)"

definition ts_le :: "'t::linorder option \<Rightarrow> 't \<Rightarrow> bool" where
  "ts_le d e = (case d of None \<Rightarrow> False | Some t \<Rightarrow> t \<le> e)"

text \<open>
  \<^verbatim>\<open>str.lower\<close>: on pure ASCII text it maps the letters A to Z to a to z; any other
  text is lowered by the library.
\<close>

definition lower_char :: "char \<Rightarrow> char" where
  "lower_char c =
     (let n = (of_char c :: nat)
      in if 65 \<le> n \<and> n \<le> 90 then ''abcdefghijklmnopqrstuvwxyz'' ! (n - 65) else c)"

definition is_ascii :: "string \<Rightarrow> bool" where
  "is_ascii s = list_all (\<lambda>c. (of_char c :: nat) < 128) s"

definition py_lower :: "'t pandas \<Rightarrow> string \<Rightarrow> string" where
  "py_lower L s = (if is_ascii s then map lower_char s else str_lower L s)"

text \<open>\<^verbatim>\<open>.astype(str)\<close> on a cell of an object column; \<open>None\<close> is a missing value.\<close>

definition astype_str :: "'t pandas \<Rightarrow> cell \<Rightarrow> string option" where
  "astype_str L c =
     (case c of
        Str s \<Rightarrow> Some s
      | NaN \<Rightarrow> if astype_str_keeps_na L then None else Some ''nan''
      | PyNone \<Rightarrow> if astype_str_keeps_na L then None else Some ''None'')"

text \<open>One entry of the mask \<^verbatim>\<open>df["category"].astype(str).str.lower() == category.lower()\<close>:
  a missing value equals no text.\<close>

definition category_eq :: "'t pandas \<Rightarrow> string \<Rightarrow> cell \<Rightarrow> bool" where
  "category_eq L c x =
     (case astype_str L x of None \<Rightarrow> False | Some s \<Rightarrow> py_lower L s = py_lower L c)"

text \<open>\<^verbatim>\<open>df["date"].dt.strftime("%Y-%m-%d")\<close>: NaT gives NaN.\<close>

definition dt_strftime :: "'t pandas \<Rightarrow> 't option row \<Rightarrow> expense" where
  "dt_strftime L r =
     \<lparr>date = (case date r of None \<Rightarrow> NaN | Some t \<Rightarrow> Str (strftime L t)),
      category = category r, amount = amount r\<rparr>"

text \<open>
  The three optional restrictions of \<^verbatim>\<open>filter_data\<close>, in the order of the source. A
  Python string is false when it is empty, so an empty bound or category is the same as
  none; a bound that parses to NaT leaves the table as it is. The argument \<open>col\<close> is the
  date column the datetime column was made from: the comparison of that column with a
  bound it is not comparable with raises \<^verbatim>\<open>TypeError\<close>.
\<close>

text \<open>\<^verbatim>\<open>if start_date: start = pd.to_datetime(...); if pd.notna(start): df = df[df["date"] >= start]\<close>\<close>

definition restrict_start ::
  "'t::linorder pandas \<Rightarrow> cell list \<Rightarrow> string option \<Rightarrow> 't option row list
     \<Rightarrow> py_error + 't option row list" where
  "restrict_start L col start_date df =
     (case start_date of
        None \<Rightarrow> Inr df
      | Some s \<Rightarrow>
          if s = [] then Inr df
          else (case to_datetime_scalar L s of
                  None \<Rightarrow> Inr df
                | Some start \<Rightarrow>
                    if comparable L col start
                    then Inr (filter (\<lambda>r. ts_ge (date r) start) df)
                    else Inl TypeError))"

text \<open>\<^verbatim>\<open>if end_date: end = pd.to_datetime(...); if pd.notna(end): df = df[df["date"] <= end]\<close>\<close>

definition restrict_end ::
  "'t::linorder pandas \<Rightarrow> cell list \<Rightarrow> string option \<Rightarrow> 't option row list
     \<Rightarrow> py_error + 't option row list" where
  "restrict_end L col end_date df =
     (case end_date of
        None \<Rightarrow> Inr df
      | Some s \<Rightarrow>
          if s = [] then Inr df
          else (case to_datetime_scalar L s of
                  None \<Rightarrow> Inr df
                | Some stop \<Rightarrow>
                    if comparable L col stop
                    then Inr (filter (\<lambda>r. ts_le (date r) stop) df)
                    else Inl TypeError))"

text \<open>\<^verbatim>\<open>if category and category != "All": df = df[df["category"].astype(str).str.lower() == category.lower()]\<close>\<close>

definition restrict_category :: "'t pandas \<Rightarrow> string option \<Rightarrow> 'd row list \<Rightarrow> 'd row list" where
  "restrict_category L category_arg df =
     (case category_arg of
        None \<Rightarrow> df
      | Some c \<Rightarrow>
          if c \<noteq> [] \<and> c \<noteq> ''All''
          then filter (\<lambda>r. category_eq L c (category r)) df
          else df)"

text \<open>\<^verbatim>\<open>filter_data(df, start_date, end_date, category)\<close> for a given table: the filtered
  table, or the exception a comparison raised.\<close>

definition filter_data ::
  "'t::linorder pandas \<Rightarrow> expense list \<Rightarrow> string option \<Rightarrow> string option \<Rightarrow> string option
     \<Rightarrow> py_error + expense list" where
  "filter_data L df start_date end_date category_arg =
     (if df = [] then Inr df
      else
        let col = map date df;
            df = parse_dates L df
        in case restrict_start L col start_date df of
             Inl e \<Rightarrow> Inl e
           | Inr df \<Rightarrow>
               (case restrict_end L col end_date df of
                  Inl e \<Rightarrow> Inl e
                | Inr df \<Rightarrow>
                    let df = restrict_category L category_arg df
                    in Inr (map (dt_strftime L) df)))"

text \<open>\<^verbatim>\<open>filter_data(None, ...)\<close>: the table is loaded from the store first.\<close>

definition filter_data_default ::
  "'t::linorder pandas \<Rightarrow> string option \<Rightarrow> string option \<Rightarrow> string option \<Rightarrow> store
     \<Rightarrow> py_error + (expense list \<times> store)" where
  "filter_data_default L start_date end_date category_arg st =
     (case load_data L st of
        Inl e \<Rightarrow> Inl e
      | Inr (df, st') \<Rightarrow>
          (case filter_data L df start_date end_date category_arg of
             Inl e \<Rightarrow> Inl e
           | Inr res \<Rightarrow> Inr (res, st')))"

section \<open>Summary statistics\<close>

record summary =
  s_total :: real
  s_average :: real
  s_max :: "real option"
  s_count :: nat
  s_by_category :: "(string \<times> real) list"

definition dropna :: "'a option list \<Rightarrow> 'a list" where
  "dropna xs = [x. Some x \<leftarrow> xs]"

text \<open>\<^verbatim>\<open>Series.sum()\<close>, \<^verbatim>\<open>Series.count()\<close> and \<^verbatim>\<open>Series.max()\<close> skip NaN; the maximum of
  no value is NaN.\<close>

definition series_sum :: "real option list \<Rightarrow> real" where
  "series_sum xs = sum_list (dropna xs)"

definition series_count :: "real option list \<Rightarrow> nat" where
  "series_count xs = length (dropna xs)"

definition series_max :: "real option list \<Rightarrow> real option" where
  "series_max xs = (case dropna xs of [] \<Rightarrow> None | y # ys \<Rightarrow> Some (fold max ys y))"

definition py_truediv :: "real \<Rightarrow> nat \<Rightarrow> py_error + real" where
  "py_truediv a b = (if b = 0 then Inl ZeroDivisionError else Inr (a / real b))"

text \<open>Python's \<^verbatim>\<open>round(x, 2)\<close>: to the nearest hundredth, a tie to the even one.\<close>

definition round_half_even :: "real \<Rightarrow> int" where
  "round_half_even x =
     (let f = \<lfloor>x\<rfloor>; d = x - of_int f
      in if d < 1 / 2 then f else if 1 / 2 < d then f + 1 else if even f then f else f + 1)"

definition py_round2 :: "real \<Rightarrow> real" where
  "py_round2 x = of_int (round_half_even (x * 100)) / 100"

text \<open>\<^verbatim>\<open>df.groupby("category")["amount"].sum()\<close>: one group per category that is not
  missing, the groups in the order of their keys.\<close>

definition group_keys :: "'d row list \<Rightarrow> string list" where
  "group_keys df = sort (remdups [k. Str k \<leftarrow> map category df])"

definition groupby_category_sum :: "'d row list \<Rightarrow> (string \<times> real) list" where
  "groupby_category_sum df =
     map (\<lambda>k. (k, series_sum [amount r. r \<leftarrow> df, category r = Str k])) (group_keys df)"

text \<open>\<^verbatim>\<open>.sort_values(ascending=False)\<close>: pandas reverses, sorts ascending, and reverses
  again.\<close>

definition sort_values_desc :: "(string \<times> real) list \<Rightarrow> (string \<times> real) list" where
  "sort_values_desc s = rev (sort_key snd (rev s))"

definition compute_summary :: "'d row list \<Rightarrow> py_error + summary" where
  "compute_summary df =
     (if df = [] then
        Inr \<lparr>s_total = 0, s_average = 0, s_max = Some 0, s_count = 0, s_by_category = []\<rparr>
      else
        let total = series_sum (map amount df);
            count = series_count (map amount df)
        in case (if count \<noteq> 0 then py_truediv total count else Inr 0) of
             Inl e \<Rightarrow> Inl e
           | Inr average \<Rightarrow>
               let max_val = (if count \<noteq> 0 then series_max (map amount df) else Some 0);
                   by_cat_series = sort_values_desc (groupby_category_sum df)
               in Inr \<lparr>s_total = py_round2 total, s_average = py_round2 average,
                        s_max = map_option py_round2 max_val, s_count = count,
                        s_by_category = by_cat_series\<rparr>)"

definition compute_summary_default ::
  "'t pandas \<Rightarrow> store \<Rightarrow> py_error + (summary \<times> store)" where
  "compute_summary_default L st =
     (case load_data L st of
        Inl e \<Rightarrow> Inl e
      | Inr (df, st') \<Rightarrow> (case compute_summary df of Inl e \<Rightarrow> Inl e | Inr s \<Rightarrow> Inr (s, st')))"

section \<open>Forecast\<close>

text \<open>\<^verbatim>\<open>d.dropna(subset=["date"])\<close>\<close>

definition dropna_date :: "'t option row list \<Rightarrow> 't row list" where
  "dropna_date d =
     [\<lparr>date = t, category = category r, amount = amount r\<rparr>. r \<leftarrow> d, Some t \<leftarrow> [date r]]"

text \<open>\<^verbatim>\<open>_monthly_totals\<close>: the Series of the monthly sums, as the list of its
  (month, total) pairs in the order of the months.\<close>

definition monthly_totals :: "'t pandas \<Rightarrow> expense list \<Rightarrow> (int \<times> real) list" where
  "monthly_totals L df =
     (if df = [] then []
      else
        let d = parse_dates L df;
            d = dropna_date d
        in if d = [] then []
           else
             let d = map (\<lambda>r. (r, to_period_M L (date r))) d
             in map (\<lambda>m. (m, series_sum [amount r. (r, m') \<leftarrow> d, m' = m]))
                  (sort (remdups (map snd d))))"

text \<open>
  \<^verbatim>\<open>LinearRegression().fit(X, y)\<close> with one feature: the data are centred, the slope is
  the least-squares solution of the centred system (0 when the feature is constant)
  and the intercept follows. The result is (intercept, coefficient).
\<close>

definition linear_regression_fit :: "real list \<Rightarrow> real list \<Rightarrow> real \<times> real" where
  "linear_regression_fit X y =
     (let n = real (length X);
          x_mean = sum_list X / n;
          y_mean = sum_list y / n;
          sxy = (\<Sum>(a, b) \<leftarrow> zip X y. (a - x_mean) * (b - y_mean));
          sxx = (\<Sum>a \<leftarrow> X. (a - x_mean)\<^sup>2);
          coef = sxy / sxx
      in (y_mean - coef * x_mean, coef))"

definition linear_regression_predict :: "real \<times> real \<Rightarrow> real \<Rightarrow> real" where
  "linear_regression_predict model x = fst model + snd model * x"

text \<open>The advice text, by the sentence chosen and the numbers printed in it.\<close>

datatype advice =
  NotEnoughData
  | NaiveForecast real
  | FlatOrDeclining
  | Estimate real real

text \<open>The body of \<^verbatim>\<open>predict_next_month\<close> after \<^verbatim>\<open>monthly = _monthly_totals(df)\<close>.\<close>

definition forecast :: "(int \<times> real) list \<Rightarrow> real option \<times> advice" where
  "forecast monthly_series =
     (let monthly = map snd monthly_series
      in if length monthly = 0 then (None, NotEnoughData)
         else if length monthly = 1 then
           (let pred = monthly ! 0 in (Some (py_round2 pred), NaiveForecast pred))
         else
           let X = map real [0..<length monthly];
               model = linear_regression_fit X monthly;
               pred = linear_regression_predict model (real (length monthly));
               pred = py_round2 pred;
               safe_limit = 0.9 * pred
           in if pred \<le> 0 then (Some pred, FlatOrDeclining)
              else (Some pred, Estimate pred safe_limit))"

definition predict_next_month :: "'t pandas \<Rightarrow> expense list \<Rightarrow> real option \<times> advice" where
  "predict_next_month L df = forecast (monthly_totals L df)"

definition predict_next_month_default ::
  "'t pandas \<Rightarrow> store \<Rightarrow> py_error + ((real option \<times> advice) \<times> store)" where
  "predict_next_month_default L st =
     (case load_data L st of
        Inl e \<Rightarrow> Inl e
      | Inr (df, st') \<Rightarrow> Inr (predict_next_month L df, st'))"

section \<open>Objects and references\<close>

text \<open>
  In Python a DataFrame is an object and a variable holds a reference to it:
  \<^verbatim>\<open>df["date"] = ...\<close> changes the object in place, while \<^verbatim>\<open>df.copy()\<close>, \<^verbatim>\<open>df[mask]\<close> and
  \<^verbatim>\<open>d.dropna(...)\<close> make new objects. The heap is the list of the objects made so far
  and a reference is a position in it. An object is a table in one of the shapes the
  program gives it: as loaded, with a datetime date column, after \<^verbatim>\<open>dropna\<close>, and with
  the added month column.
\<close>

datatype 't obj =
  Frame "expense list"
  | DatetimeFrame "'t option row list"
  | CleanFrame "'t row list"
  | MonthFrame "('t row \<times> int) list"

type_synonym 't heap = "'t obj list"

definition new_obj :: "'t obj \<Rightarrow> 't heap \<Rightarrow> nat \<times> 't heap" where
  "new_obj x h = (length h, h @ [x])"

definition get_frame :: "'t heap \<Rightarrow> nat \<Rightarrow> expense list option" where
  "get_frame h r =
     (if r < length h then (case h ! r of Frame t \<Rightarrow> Some t | _ \<Rightarrow> None) else None)"

text \<open>
  A local variable that holds a DataFrame with a datetime date column is modelled by
  the reference, the content of the object it refers to, and the heap.
  \<^verbatim>\<open>df = df[mask]\<close> makes a new object with the selected rows and binds \<open>df\<close> to it.
\<close>

definition select_rows ::
  "('t option row \<Rightarrow> bool) \<Rightarrow> nat \<times> 't option row list \<times> 't heap
     \<Rightarrow> nat \<times> 't option row list \<times> 't heap" where
  "select_rows keep v =
     (case v of (df, d, h) \<Rightarrow>
        let d = filter keep d;
            (df, h) = new_obj (DatetimeFrame d) h
        in (df, d, h))"

text \<open>
  The three optional restrictions of \<^verbatim>\<open>filter_data\<close>, on the heap. A comparison that
  raises makes no object: the result is then the exception and the heap as it is.
\<close>

definition restrict_start_heap ::
  "'t::linorder pandas \<Rightarrow> cell list \<Rightarrow> string option \<Rightarrow> nat \<times> 't option row list \<times> 't heap
     \<Rightarrow> (py_error \<times> 't heap) + (nat \<times> 't option row list \<times> 't heap)" where
  "restrict_start_heap L col start_date v =
     (case start_date of
        None \<Rightarrow> Inr v
      | Some s \<Rightarrow>
          if s = [] then Inr v
          else (case to_datetime_scalar L s of
                  None \<Rightarrow> Inr v
                | Some start \<Rightarrow>
                    if comparable L col start
                    then Inr (select_rows (\<lambda>r. ts_ge (date r) start) v)
                    else Inl (TypeError, snd (snd v))))"

definition restrict_end_heap ::
  "'t::linorder pandas \<Rightarrow> cell list \<Rightarrow> string option \<Rightarrow> nat \<times> 't option row list \<times> 't heap
     \<Rightarrow> (py_error \<times> 't heap) + (nat \<times> 't option row list \<times> 't heap)" where
  "restrict_end_heap L col end_date v =
     (case end_date of
        None \<Rightarrow> Inr v
      | Some s \<Rightarrow>
          if s = [] then Inr v
          else (case to_datetime_scalar L s of
                  None \<Rightarrow> Inr v
                | Some stop \<Rightarrow>
                    if comparable L col stop
                    then Inr (select_rows (\<lambda>r. ts_le (date r) stop) v)
                    else Inl (TypeError, snd (snd v))))"

definition restrict_category_heap ::
  "'t pandas \<Rightarrow> string option \<Rightarrow> nat \<times> 't option row list \<times> 't heap
     \<Rightarrow> nat \<times> 't option row list \<times> 't heap" where
  "restrict_category_heap L category_arg v =
     (case category_arg of
        None \<Rightarrow> v
      | Some c \<Rightarrow>
          if c \<noteq> [] \<and> c \<noteq> ''All''
          then select_rows (\<lambda>r. category_eq L c (category r)) v
          else v)"

text \<open>
  \<^verbatim>\<open>filter_data\<close> on the heap. The argument \<open>df\<close> is the caller's reference; the result
  is the returned reference, or the exception raised, and the heap after the call; it
  is \<open>None\<close> when \<open>df\<close> does not refer to a table of expenses. On an empty table the
  caller's reference itself is returned; otherwise the table is copied and the
  assignments to the date column change the copies.
\<close>

definition filter_data_heap ::
  "'t::linorder pandas \<Rightarrow> nat \<Rightarrow> string option \<Rightarrow> string option \<Rightarrow> string option \<Rightarrow> 't heap
     \<Rightarrow> ((py_error + nat) \<times> 't heap) option" where
  "filter_data_heap L df start_date end_date category_arg h =
     (case get_frame h df of
        None \<Rightarrow> None
      | Some t \<Rightarrow>
          if t = [] then Some (Inr df, h)
          else
            let (df, h) = new_obj (Frame t) h;
                col = map date t;
                d = parse_dates L t;
                h = h[df := DatetimeFrame d]
            in case restrict_start_heap L col start_date (df, d, h) of
                 Inl (e, h) \<Rightarrow> Some (Inl e, h)
               | Inr v \<Rightarrow>
                   (case restrict_end_heap L col end_date v of
                      Inl (e, h) \<Rightarrow> Some (Inl e, h)
                    | Inr v \<Rightarrow>
                        let (df, d, h) = restrict_category_heap L category_arg v;
                            h = h[df := Frame (map (dt_strftime L) d)]
                        in Some (Inr df, h)))"

text \<open>\<^verbatim>\<open>compute_summary\<close> reads the table and assigns to no DataFrame.\<close>

definition compute_summary_heap ::
  "nat \<Rightarrow> 't heap \<Rightarrow> ((py_error + summary) \<times> 't heap) option" where
  "compute_summary_heap df h =
     (case get_frame h df of None \<Rightarrow> None | Some t \<Rightarrow> Some (compute_summary t, h))"

definition monthly_totals_heap ::
  "'t pandas \<Rightarrow> nat \<Rightarrow> 't heap \<Rightarrow> ((int \<times> real) list \<times> 't heap) option" where
  "monthly_totals_heap L df h =
     (case get_frame h df of
        None \<Rightarrow> None
      | Some t \<Rightarrow>
          if t = [] then Some ([], h)
          else
            let (d, h) = new_obj (Frame t) h;
                h = h[d := DatetimeFrame (parse_dates L t)];
                c = dropna_date (parse_dates L t);
                (d, h) = new_obj (CleanFrame c) h
            in if c = [] then Some ([], h)
               else
                 let m = map (\<lambda>r. (r, to_period_M L (date r))) c;
                     h = h[d := MonthFrame m]
                 in Some (map (\<lambda>k. (k, series_sum [amount r. (r, k') \<leftarrow> m, k' = k]))
                            (sort (remdups (map snd m))), h))"

definition predict_next_month_heap ::
  "'t pandas \<Rightarrow> nat \<Rightarrow> 't heap \<Rightarrow> ((real option \<times> advice) \<times> 't heap) option" where
  "predict_next_month_heap L df h =
     (case monthly_totals_heap L df h of
        None \<Rightarrow> None
      | Some (monthly, h') \<Rightarrow> Some (forecast monthly, h'))"

section \<open>A concrete library for the examples\<close>

text \<open>
  The library restricted to ASCII text, to the dates \<^verbatim>\<open>YYYY-MM-DD\<close> (time-zone-naive)
  and \<^verbatim>\<open>YYYY-MM-DDT00:00:00Z\<close> (time-zone-aware), and to amounts written as plain
  decimal numerals; any other text is unparsable here. A timestamp is the day written as
  the number \<open>yyyymmdd\<close>, with the flag of a time zone. The examples below use only such
  inputs.
\<close>

definition digit_val :: "char \<Rightarrow> nat option" where
  "digit_val c =
     (let n = (of_char c :: nat) in if 48 \<le> n \<and> n \<le> 57 then Some (n - 48) else None)"

fun digits_val :: "string \<Rightarrow> nat \<Rightarrow> nat option" where
  "digits_val [] acc = Some acc"
| "digits_val (c # cs) acc =
     (case digit_val c of None \<Rightarrow> None | Some d \<Rightarrow> digits_val cs (10 * acc + d))"

definition parse_nat :: "string \<Rightarrow> nat option" where
  "parse_nat s = (if s = [] then None else digits_val s 0)"

definition days_in_month :: "nat \<Rightarrow> nat \<Rightarrow> nat" where
  "days_in_month y m =
     (if m = 4 \<or> m = 6 \<or> m = 9 \<or> m = 11 then 30
      else if m = 2 then
        (if y mod 4 = 0 \<and> (y mod 100 \<noteq> 0 \<or> y mod 400 = 0) then 29 else 28)
      else 31)"

definition parse_day :: "string \<Rightarrow> nat option" where
  "parse_day s =
     (if length s = 10 \<and> s ! 4 = CHR ''-'' \<and> s ! 7 = CHR ''-'' then
        (case parse_nat (take 4 s) of None \<Rightarrow> None | Some y \<Rightarrow>
         case parse_nat (take 2 (drop 5 s)) of None \<Rightarrow> None | Some m \<Rightarrow>
         case parse_nat (drop 8 s) of None \<Rightarrow> None | Some d \<Rightarrow>
           if 1678 \<le> y \<and> y \<le> 2261 \<and> 1 \<le> m \<and> m \<le> 12 \<and> 1 \<le> d \<and> d \<le> days_in_month y m
           then Some (y * 10000 + m * 100 + d) else None)
      else None)"

definition parse_iso :: "string \<Rightarrow> (nat \<times> bool) option" where
  "parse_iso s =
     (case parse_day (take 10 s) of
        None \<Rightarrow> None
      | Some n \<Rightarrow>
          if drop 10 s = [] then Some (n, False)
          else if drop 10 s = ''T00:00:00Z'' then Some (n, True)
          else None)"

text \<open>A column is time-zone-aware when it holds an aware timestamp (a column that mixes
  both kinds is outside the fragment).\<close>

definition column_tz_aware :: "cell list \<Rightarrow> bool" where
  "column_tz_aware col =
     list_ex (\<lambda>c. case c of
                    Str s \<Rightarrow> (case parse_iso s of None \<Rightarrow> False | Some t \<Rightarrow> snd t)
                  | _ \<Rightarrow> False) col"

definition digit_char :: "nat \<Rightarrow> char" where
  "digit_char n = ''0123456789'' ! (n mod 10)"

definition format_iso :: "nat \<times> bool \<Rightarrow> string" where
  "format_iso t =
     (let y = fst t div 10000; m = fst t div 100 mod 100; d = fst t mod 100
      in [digit_char (y div 1000), digit_char (y div 100), digit_char (y div 10), digit_char y,
          CHR ''-'', digit_char (m div 10), digit_char m,
          CHR ''-'', digit_char (d div 10), digit_char d])"

definition month_ordinal :: "nat \<times> bool \<Rightarrow> int" where
  "month_ordinal t =
     (int (fst t div 10000) - 1970) * 12 + (int (fst t div 100 mod 100) - 1)"

definition parse_decimal :: "string \<Rightarrow> real option" where
  "parse_decimal s =
     (let ip = takeWhile (\<lambda>c. c \<noteq> CHR ''.'') s;
          rest = dropWhile (\<lambda>c. c \<noteq> CHR ''.'') s
      in case parse_nat ip of
           None \<Rightarrow> None
         | Some i \<Rightarrow>
             (case rest of
                [] \<Rightarrow> Some (real i)
              | _ # fp \<Rightarrow>
                  (case parse_nat fp of
                     None \<Rightarrow> None
                   | Some f \<Rightarrow> Some (real i + real f / 10 ^ length fp))))"

function show_nat :: "nat \<Rightarrow> string" where
  "show_nat n = (if n < 10 then [digit_char n] else show_nat (n div 10) @ [digit_char n])"
  by pat_completeness auto
termination
  by (relation "measure id") auto

declare show_nat.simps [simp del]

text \<open>Python writes a whole float as \<^verbatim>\<open>12.0\<close> and \<^verbatim>\<open>12.5\<close> as it is; a number with more
  than two decimals is outside the fragment.\<close>

definition show_decimal :: "real \<Rightarrow> string" where
  "show_decimal x =
     (let c = nat \<lfloor>x * 100\<rfloor>; i = c div 100; f = c mod 100
      in if x < 0 \<or> real c \<noteq> x * 100 then ''nan''
         else show_nat i @ [CHR ''.''] @
              (if f mod 10 = 0 then [digit_char (f div 10)]
               else [digit_char (f div 10), digit_char f]))"

definition iso_lib :: "(nat \<times> bool) pandas" where
  "iso_lib =
     \<lparr>to_datetime = (\<lambda>col c. case c of Str s \<Rightarrow> parse_iso s | _ \<Rightarrow> None),
      to_datetime_scalar = parse_iso,
      comparable = (\<lambda>col t. snd t = column_tz_aware col),
      strftime = format_iso,
      to_period_M = month_ordinal,
      to_numeric = (\<lambda>col c. case c of Str s \<Rightarrow> parse_decimal s | _ \<Rightarrow> None),
      float_repr = show_decimal,
      str_lower = map lower_char,
      astype_str_keeps_na = True\<rparr>"

section \<open>Lemmas: summary statistics\<close>

lemma dropna_simps [simp]:
  "dropna [] = []"
  "dropna (None # xs) = dropna xs"
  "dropna (Some x # xs) = x # dropna xs"
  by (simp_all add: dropna_def)

lemma dropna_empty_iff: "dropna xs = [] \<longleftrightarrow> (\<forall>x \<in> set xs. x = None)"
  by (induction xs) (auto split: option.splits simp: dropna_def)

lemma round_half_even_0 [simp]: "round_half_even 0 = 0"
  by (simp add: round_half_even_def)

lemma py_round2_0 [simp]: "py_round2 0 = 0"
  by (simp add: py_round2_def)

lemma series_max_Max:
  assumes "dropna xs \<noteq> []"
  shows "series_max xs = Some (Max (set (dropna xs)))"
proof (cases "dropna xs")
  case Nil
  with assms show ?thesis by simp
next
  case (Cons y ys)
  then show ?thesis
    using Max.set_eq_fold [of y ys] by (simp add: series_max_def)
qed

lemma set_sort_values_desc [simp]: "set (sort_values_desc s) = set s"
  by (simp add: sort_values_desc_def)

lemma distinct_keys_sort_values_desc:
  "distinct (map fst (sort_values_desc s)) = distinct (map fst s)"
  by (simp add: sort_values_desc_def distinct_map)

lemma sorted_sort_values_desc: "sorted_wrt (\<lambda>a b. snd b \<le> snd a) (sort_values_desc s)"
proof -
  have "sorted (map snd (sort_key snd (rev s)))"
    by (rule sorted_sort_key)
  then have "sorted_wrt (\<lambda>a b. snd a \<le> snd b) (sort_key snd (rev s))"
    by (simp add: sorted_map)
  then show ?thesis
    by (simp add: sort_values_desc_def sorted_wrt_rev)
qed

lemma set_group_keys: "set (group_keys df) = {k. Str k \<in> category ` set df}"
  by (auto simp: group_keys_def image_iff split: cell.splits)

lemma distinct_group_keys: "distinct (group_keys df)"
  by (simp add: group_keys_def)

lemma keys_groupby [simp]: "map fst (groupby_category_sum df) = group_keys df"
  by (simp add: groupby_category_sum_def comp_def)

lemma set_keys_groupby: "fst ` set (groupby_category_sum df) = set (group_keys df)"
  by (metis keys_groupby set_map)

lemma groupby_value:
  "(k, v) \<in> set (groupby_category_sum df) \<Longrightarrow>
     v = sum_list (dropna [amount r. r \<leftarrow> df, category r = Str k])"
  by (auto simp: groupby_category_sum_def series_sum_def)

lemma compute_summary_nonempty:
  "df \<noteq> [] \<Longrightarrow>
   compute_summary df =
     Inr \<lparr>s_total = py_round2 (series_sum (map amount df)),
          s_average = py_round2 (if series_count (map amount df) \<noteq> 0
             then series_sum (map amount df) / real (series_count (map amount df)) else 0),
          s_max = map_option py_round2
             (if series_count (map amount df) \<noteq> 0 then series_max (map amount df) else Some 0),
          s_count = series_count (map amount df),
          s_by_category = sort_values_desc (groupby_category_sum df)\<rparr>"
  by (simp add: compute_summary_def py_truediv_def Let_def)

lemmas summary_eval = compute_summary_def series_sum_def series_count_def series_max_def
  py_truediv_def sort_values_desc_def groupby_category_sum_def group_keys_def
  py_round2_def round_half_even_def Let_def

section \<open>Claims: summary statistics\<close>

text \<open>
  C3, as amended. For an empty table \<^verbatim>\<open>summarize\<close> returns all-zero statistics and an
  empty category mapping. For any other table it returns a summary whose total is the
  sum of the amounts that are not missing, rounded to 2 decimals; whose count is the
  number of those amounts; when there is at least one, whose average is that sum divided
  by the count, rounded to 2 decimals, and whose max is the greatest of them, rounded to
  2 decimals; and whose \<open>by_category\<close> has one entry per category that is not missing,
  each with the sum of that category's amounts (not rounded), in descending order of
  the sums.
\<close>

theorem compute_summary_spec:
  fixes df :: "'d row list"
  shows
  "(df = [] \<longrightarrow>
      compute_summary df =
        Inr \<lparr>s_total = 0, s_average = 0, s_max = Some 0, s_count = 0, s_by_category = []\<rparr>) \<and>
   (df \<noteq> [] \<longrightarrow>
      (\<exists>s. compute_summary df = Inr s \<and>
        s_total s = py_round2 (sum_list (dropna (map amount df))) \<and>
        s_count s = length (dropna (map amount df)) \<and>
        (dropna (map amount df) \<noteq> [] \<longrightarrow>
           s_average s =
             py_round2 (sum_list (dropna (map amount df)) / real (length (dropna (map amount df)))) \<and>
           s_max s = Some (py_round2 (Max (set (dropna (map amount df)))))) \<and>
        distinct (map fst (s_by_category s)) \<and>
        set (map fst (s_by_category s)) = {k. Str k \<in> category ` set df} \<and>
        (\<forall>(k, v) \<in> set (s_by_category s).
           v = sum_list (dropna [amount r. r \<leftarrow> df, category r = Str k])) \<and>
        sorted_wrt (\<lambda>a b. snd b \<le> snd a) (s_by_category s)))"
proof (intro conjI impI)
  assume "df = []"
  then show "compute_summary df =
        Inr \<lparr>s_total = 0, s_average = 0, s_max = Some 0, s_count = 0, s_by_category = []\<rparr>"
    by (simp add: compute_summary_def)
next
  assume ne: "df \<noteq> []"
  let ?s = "\<lparr>s_total = py_round2 (series_sum (map amount df)),
          s_average = py_round2 (if series_count (map amount df) \<noteq> 0
             then series_sum (map amount df) / real (series_count (map amount df)) else 0),
          s_max = map_option py_round2
             (if series_count (map amount df) \<noteq> 0 then series_max (map amount df) else Some 0),
          s_count = series_count (map amount df),
          s_by_category = sort_values_desc (groupby_category_sum df)\<rparr>"
  have eq: "compute_summary df = Inr ?s"
    using ne by (rule compute_summary_nonempty)
  have keys: "map fst (s_by_category ?s) = map fst (sort_values_desc (groupby_category_sum df))"
    by simp
  have d: "distinct (map fst (s_by_category ?s))"
    by (simp add: distinct_keys_sort_values_desc distinct_group_keys)
  have s: "set (map fst (s_by_category ?s)) = {k. Str k \<in> category ` set df}"
  proof -
    show ?thesis
      by (simp add: set_keys_groupby set_group_keys)
  qed
  have v: "\<forall>(k, v) \<in> set (s_by_category ?s).
           v = sum_list (dropna [amount r. r \<leftarrow> df, category r = Str k])"
    using groupby_value [of _ _ df] by auto
  have o: "sorted_wrt (\<lambda>a b. snd b \<le> snd a) (s_by_category ?s)"
    by (simp add: sorted_sort_values_desc)
  have m: "dropna (map amount df) \<noteq> [] \<longrightarrow>
           s_average ?s =
             py_round2 (sum_list (dropna (map amount df)) / real (length (dropna (map amount df)))) \<and>
           s_max ?s = Some (py_round2 (Max (set (dropna (map amount df)))))"
    by (simp add: series_count_def series_sum_def series_max_Max)
  have t: "s_total ?s = py_round2 (sum_list (dropna (map amount df)))"
    by (simp add: series_sum_def)
  have c: "s_count ?s = length (dropna (map amount df))"
    by (simp add: series_count_def)
  from eq t c m d s v o show "\<exists>s. compute_summary df = Inr s \<and>
        s_total s = py_round2 (sum_list (dropna (map amount df))) \<and>
        s_count s = length (dropna (map amount df)) \<and>
        (dropna (map amount df) \<noteq> [] \<longrightarrow>
           s_average s =
             py_round2 (sum_list (dropna (map amount df)) / real (length (dropna (map amount df)))) \<and>
           s_max s = Some (py_round2 (Max (set (dropna (map amount df)))))) \<and>
        distinct (map fst (s_by_category s)) \<and>
        set (map fst (s_by_category s)) = {k. Str k \<in> category ` set df} \<and>
        (\<forall>(k, v) \<in> set (s_by_category s).
           v = sum_list (dropna [amount r. r \<leftarrow> df, category r = Str k])) \<and>
        sorted_wrt (\<lambda>a b. snd b \<le> snd a) (s_by_category s)"
    by blast
qed

text \<open>An instance: two records, Food 50 and Bills 80; Bills is listed before Food.\<close>

theorem compute_summary_spec_witness:
  "[\<lparr>date = Str ''2024-01-05'', category = Str ''Food'', amount = Some 50\<rparr>,
    \<lparr>date = Str ''2024-01-09'', category = Str ''Bills'', amount = Some 80\<rparr>] \<noteq> [] \<and>
   dropna (map amount
     [\<lparr>date = Str ''2024-01-05'', category = Str ''Food'', amount = Some 50\<rparr>,
      \<lparr>date = Str ''2024-01-09'', category = Str ''Bills'', amount = Some 80\<rparr>]) \<noteq> [] \<and>
   (\<exists>s. compute_summary
      [\<lparr>date = Str ''2024-01-05'', category = Str ''Food'', amount = Some 50\<rparr>,
       \<lparr>date = Str ''2024-01-09'', category = Str ''Bills'', amount = Some 80\<rparr>] = Inr s \<and>
      s_total s = 130 \<and> s_count s = 2 \<and> s_average s = 65 \<and> s_max s = Some 80 \<and>
      s_by_category s = [(''Bills'', 80), (''Food'', 50)])"
  using compute_summary_spec
    [of "[\<lparr>date = Str ''2024-01-05'', category = Str ''Food'', amount = Some 50\<rparr>,
          \<lparr>date = Str ''2024-01-09'', category = Str ''Bills'', amount = Some 80\<rparr>]"]
  by (simp add: summary_eval)

text \<open>
  C3 as stated fails: the values of \<open>by_category\<close> are not rounded. One record of 10.123
  in Food gives total, average and max 10.12, but Food is mapped to 10.123.
\<close>

theorem by_category_not_rounded:
  "compute_summary [\<lparr>date = Str ''2024-01-05'', category = Str ''Food'', amount = Some 10.123\<rparr>] =
     Inr \<lparr>s_total = 10.12, s_average = 10.12, s_max = Some 10.12, s_count = 1,
          s_by_category = [(''Food'', 10.123)]\<rparr> \<and>
   py_round2 10.123 \<noteq> 10.123"
  by (simp add: summary_eval)

text \<open>
  C10. \<^verbatim>\<open>summarize\<close> returns a summary for every table (no division by zero is
  raised), and for a table that is not empty and in which every amount is missing, the
  count is 0 and total, average and max are 0.0 (the max is not NaN).
\<close>

theorem compute_summary_total:
  fixes df :: "'d row list"
  shows "(\<exists>s. compute_summary df = Inr s) \<and>
   (df \<noteq> [] \<and> (\<forall>r \<in> set df. amount r = None) \<longrightarrow>
      (\<exists>s. compute_summary df = Inr s \<and> s_total s = 0 \<and> s_average s = 0 \<and>
           s_max s = Some 0 \<and> s_count s = 0))"
proof (intro conjI impI)
  show "\<exists>s. compute_summary df = Inr s"
  proof (cases "df = []")
    case True
    then show ?thesis by (simp add: compute_summary_def)
  next
    case False
    then show ?thesis by (simp add: compute_summary_nonempty)
  qed
next
  assume a: "df \<noteq> [] \<and> (\<forall>r \<in> set df. amount r = None)"
  then have "dropna (map amount df) = []"
    by (simp add: dropna_empty_iff)
  with a show "\<exists>s. compute_summary df = Inr s \<and> s_total s = 0 \<and> s_average s = 0 \<and>
           s_max s = Some 0 \<and> s_count s = 0"
    by (simp add: compute_summary_nonempty series_count_def series_sum_def)
qed

text \<open>An instance: two records without amounts.\<close>

theorem compute_summary_total_witness:
  "[\<lparr>date = Str ''2024-01-05'', category = Str ''Food'', amount = None\<rparr>,
    \<lparr>date = Str ''2024-01-09'', category = NaN, amount = None\<rparr>] \<noteq> [] \<and>
   compute_summary
     [\<lparr>date = Str ''2024-01-05'', category = Str ''Food'', amount = None\<rparr>,
      \<lparr>date = Str ''2024-01-09'', category = NaN, amount = None\<rparr>] =
     Inr \<lparr>s_total = 0, s_average = 0, s_max = Some 0, s_count = 0,
          s_by_category = [(''Food'', 0)]\<rparr>"
  using compute_summary_total
    [of "[\<lparr>date = Str ''2024-01-05'', category = Str ''Food'', amount = None\<rparr>,
          \<lparr>date = Str ''2024-01-09'', category = NaN, amount = None\<rparr>]"]
  by (simp add: summary_eval)


section \<open>Lemmas: filtering\<close>

lemma parse_dates_Nil [simp]: "parse_dates L [] = []"
  by (simp add: parse_dates_def)

lemma category_dt_strftime [simp]: "category (dt_strftime L r) = category r"
  by (simp add: dt_strftime_def)

lemma amount_dt_strftime [simp]: "amount (dt_strftime L r) = amount r"
  by (simp add: dt_strftime_def)




text \<open>\<^verbatim>\<open>filter_data\<close> as the composition of its steps.\<close>

lemma filter_data_steps:
  "filter_data L df sd ed c =
     (if df = [] then Inr []
      else case restrict_start L (map date df) sd (parse_dates L df) of
             Inl e \<Rightarrow> Inl e
           | Inr d \<Rightarrow>
               (case restrict_end L (map date df) ed d of
                  Inl e \<Rightarrow> Inl e
                | Inr d \<Rightarrow> Inr (map (dt_strftime L) (restrict_category L c d))))"
  by (simp add: filter_data_def Let_def split: sum.splits)



text \<open>A step raises only \<^verbatim>\<open>TypeError\<close>, and only for a bound that is not comparable.\<close>

lemma restrict_start_Inl:
  "restrict_start L col sd d = Inl e \<longleftrightarrow>
     e = TypeError \<and>
     (\<exists>s t. sd = Some s \<and> s \<noteq> [] \<and> to_datetime_scalar L s = Some t \<and> \<not> comparable L col t)"
  by (auto simp: restrict_start_def split: option.splits)

lemma restrict_end_Inl:
  "restrict_end L col ed d = Inl e \<longleftrightarrow>
     e = TypeError \<and>
     (\<exists>s t. ed = Some s \<and> s \<noteq> [] \<and> to_datetime_scalar L s = Some t \<and> \<not> comparable L col t)"
  by (auto simp: restrict_end_def split: option.splits)



lemma py_lower_ascii:
  "py_lower L ''all'' = ''all''" "py_lower L ''ALL'' = ''all''"
  "py_lower L ''nan'' = ''nan''" "py_lower L ''None'' = ''none''"
  by (simp_all add: py_lower_def is_ascii_def lower_char_def)

lemma category_eq_all:
  "category_eq L ''all'' x \<longleftrightarrow> (\<exists>k. x = Str k \<and> py_lower L k = ''all'')"
  "category_eq L ''ALL'' x \<longleftrightarrow> (\<exists>k. x = Str k \<and> py_lower L k = ''all'')"
  by (cases x; simp add: category_eq_def astype_str_def py_lower_ascii)+


lemma filter_data_category:
  "filter_data L df sd ed (Some c) =
     (case filter_data L df sd ed None of
        Inl e \<Rightarrow> Inl e
      | Inr rows \<Rightarrow>
          Inr (if c \<noteq> [] \<and> c \<noteq> ''All''
               then filter (\<lambda>r. category_eq L c (category r)) rows else rows))"
  by (simp add: filter_data_steps restrict_category_def filter_map comp_def split: sum.splits)


text \<open>
  On a table that is not empty, a compared bound that is not comparable with the date
  column makes \<^verbatim>\<open>filter_data\<close> raise \<^verbatim>\<open>TypeError\<close>.
\<close>

lemma filter_data_raises:
  assumes "df \<noteq> []"
    and "\<exists>x t. (sd = Some x \<or> ed = Some x) \<and> x \<noteq> [] \<and> to_datetime_scalar L x = Some t \<and>
           \<not> comparable L (map date df) t"
  shows "filter_data L df sd ed c = Inl TypeError"
proof (cases "restrict_start L (map date df) sd (parse_dates L df)")
  case (Inl e)
  then have "e = TypeError"
    by (simp add: restrict_start_Inl)
  with Inl assms(1) show ?thesis
    by (simp add: filter_data_steps)
next
  case (Inr d)
  then have "\<not> (\<exists>x t. sd = Some x \<and> x \<noteq> [] \<and> to_datetime_scalar L x = Some t \<and>
         \<not> comparable L (map date df) t)"
    using restrict_start_Inl [of L "map date df" sd "parse_dates L df" TypeError] by auto
  with assms(2) have "\<exists>x t. ed = Some x \<and> x \<noteq> [] \<and> to_datetime_scalar L x = Some t \<and>
         \<not> comparable L (map date df) t"
    by blast
  then have "restrict_end L (map date df) ed d = Inl TypeError"
    by (simp add: restrict_end_Inl)
  with Inr assms(1) show ?thesis
    by (simp add: filter_data_steps)
qed

lemmas iso_eval = iso_lib_def parse_iso_def parse_day_def parse_nat_def digit_val_def
  format_iso_def digit_char_def days_in_month_def month_ordinal_def parse_decimal_def
  show_decimal_def column_tz_aware_def

lemmas filter_eval = filter_data_def parse_dates_def restrict_start_def restrict_end_def
  restrict_category_def ts_ge_def ts_le_def py_lower_def is_ascii_def lower_char_def
  astype_str_def category_eq_def dt_strftime_def Let_def

section \<open>Claims: filtering\<close>










text \<open>
  C9, as amended. The sentinel is matched as it is written: with the category \<^verbatim>\<open>all\<close>
  or \<^verbatim>\<open>ALL\<close>, \<^verbatim>\<open>filter\<close> returns, of what it returns without a category, exactly the
  records whose stored category is a string equal to \<^verbatim>\<open>all\<close> after lowering (and raises
  what it raises without a category), and with \<^verbatim>\<open>All\<close> it applies no category
  restriction.
\<close>

theorem filter_data_sentinel:
  "filter_data L df sd ed (Some ''all'') =
     (case filter_data L df sd ed None of
        Inl e \<Rightarrow> Inl e
      | Inr rows \<Rightarrow> Inr (filter (\<lambda>r. \<exists>k. category r = Str k \<and> py_lower L k = ''all'') rows)) \<and>
   filter_data L df sd ed (Some ''ALL'') =
     (case filter_data L df sd ed None of
        Inl e \<Rightarrow> Inl e
      | Inr rows \<Rightarrow> Inr (filter (\<lambda>r. \<exists>k. category r = Str k \<and> py_lower L k = ''all'') rows)) \<and>
   filter_data L df sd ed (Some ''All'') = filter_data L df sd ed None"
  by (simp add: filter_data_category category_eq_all split: sum.splits)

text \<open>An instance: \<^verbatim>\<open>all\<close> keeps only the record stored as \<^verbatim>\<open>All\<close>; \<^verbatim>\<open>All\<close> keeps both.\<close>

theorem filter_data_sentinel_witness:
  "filter_data iso_lib
     [\<lparr>date = Str ''2024-03-02'', category = Str ''Food'', amount = Some 7\<rparr>,
      \<lparr>date = Str ''2024-03-05'', category = Str ''All'', amount = Some 5\<rparr>]
     None None (Some ''all'') =
     Inr [\<lparr>date = Str ''2024-03-05'', category = Str ''All'', amount = Some 5\<rparr>] \<and>
   filter_data iso_lib
     [\<lparr>date = Str ''2024-03-02'', category = Str ''Food'', amount = Some 7\<rparr>,
      \<lparr>date = Str ''2024-03-05'', category = Str ''All'', amount = Some 5\<rparr>]
     None None (Some ''All'') =
     Inr [\<lparr>date = Str ''2024-03-02'', category = Str ''Food'', amount = Some 7\<rparr>,
          \<lparr>date = Str ''2024-03-05'', category = Str ''All'', amount = Some 5\<rparr>]"
  using filter_data_sentinel [of iso_lib
     "[\<lparr>date = Str ''2024-03-02'', category = Str ''Food'', amount = Some 7\<rparr>,
      \<lparr>date = Str ''2024-03-05'', category = Str ''All'', amount = Some 5\<rparr>]" None None]
  by (simp add: filter_eval iso_eval)

text \<open>
  C9 as stated fails: for a table that is not empty and whose records all have the
  category \<^verbatim>\<open>All\<close>, the category \<^verbatim>\<open>all\<close> does return the whole table.
\<close>

theorem filter_data_all_lowercase_whole_table:
  "filter_data iso_lib
     [\<lparr>date = Str ''2024-03-05'', category = Str ''All'', amount = Some 5\<rparr>]
     None None (Some ''all'') =
     Inr [\<lparr>date = Str ''2024-03-05'', category = Str ''All'', amount = Some 5\<rparr>]"
  by (simp add: filter_eval iso_eval)

section \<open>Lemmas: forecast\<close>

lemma zip_upt_nth:
  "length ys = n \<Longrightarrow> zip (map f [0..<n]) ys = map (\<lambda>i. (f i, ys ! i)) [0..<n]"
  by (rule nth_equalityI) simp_all

lemma sum_list_upt: "sum_list (map f [0..<n]) = (\<Sum>i<n. f i)"
  by (simp add: sum_list_distinct_conv_sum_set atLeast0LessThan)

lemma sum_list_nth_upt: "sum_list ys = (\<Sum>i<length ys. ys ! i)"
  by (simp add: sum_list_sum_nth atLeast0LessThan)

text \<open>The fitted line over the feature values 0, 1, ..., n - 1, with sums over indices.\<close>

lemma linear_regression_fit_index:
  fixes ys :: "real list"
  defines "n \<equiv> length ys"
  defines "xm \<equiv> (\<Sum>i<n. real i) / real n"
  defines "ym \<equiv> (\<Sum>i<n. ys ! i) / real n"
  defines "b \<equiv> (\<Sum>i<n. (real i - xm) * (ys ! i - ym)) / (\<Sum>i<n. (real i - xm)\<^sup>2)"
  shows "linear_regression_fit (map real [0..<n]) ys = (ym - b * xm, b)"
proof -
  have z: "zip (map real [0..<n]) ys = map (\<lambda>i. (real i, ys ! i)) [0..<n]"
    by (rule zip_upt_nth) (simp add: n_def)
  have sx: "sum_list (map real [0..<n]) = (\<Sum>i<n. real i)"
    by (rule sum_list_upt)
  have sy: "sum_list ys = (\<Sum>i<n. ys ! i)"
    unfolding n_def by (rule sum_list_nth_upt)
  show ?thesis
    unfolding linear_regression_fit_def Let_def z sx sy
    by (simp add: comp_def sum_list_upt xm_def ym_def b_def)
qed

lemma centred_sum_zero:
  fixes f :: "nat \<Rightarrow> real"
  assumes "0 < n"
  shows "(\<Sum>i<n. f i - (\<Sum>j<n. f j) / real n) = 0"
  using assms by (simp add: sum_subtractf)

lemma sxx_pos:
  fixes m :: real
  assumes "2 \<le> n"
  shows "0 < (\<Sum>i<n. (real i - m)\<^sup>2)"
proof -
  have "(\<Sum>i\<in>{0, 1}. (real i - m)\<^sup>2) \<le> (\<Sum>i<n. (real i - m)\<^sup>2)"
    using assms by (intro sum_mono2) auto
  moreover have "0 < (\<Sum>i\<in>{0, 1::nat}. (real i - m)\<^sup>2)"
  proof -
    have "(\<Sum>i\<in>{0, 1::nat}. (real i - m)\<^sup>2) = m\<^sup>2 + (1 - m)\<^sup>2"
      by simp
    moreover have "0 < m\<^sup>2 + (1 - m)\<^sup>2"
      by (cases "m = 0") (simp_all add: add_pos_nonneg)
    ultimately show ?thesis by simp
  qed
  ultimately show ?thesis by linarith
qed

text \<open>The squared error of a line, and the least-squares property of the fitted one.\<close>

lemma least_squares:
  fixes y :: "nat \<Rightarrow> real"
  assumes n: "2 \<le> n"
  defines "xm \<equiv> (\<Sum>i<n. real i) / real n"
  defines "ym \<equiv> (\<Sum>i<n. y i) / real n"
  defines "b \<equiv> (\<Sum>i<n. (real i - xm) * (y i - ym)) / (\<Sum>i<n. (real i - xm)\<^sup>2)"
  defines "a \<equiv> ym - b * xm"
  shows "(\<Sum>i<n. (y i - (a' + b' * real i))\<^sup>2) =
         (\<Sum>i<n. (y i - (a + b * real i))\<^sup>2) +
         (\<Sum>i<n. ((a - a') + (b - b') * real i)\<^sup>2)"
proof -
  define e where "e i = y i - (a + b * real i)" for i
  define sxx where "sxx = (\<Sum>i<n. (real i - xm)\<^sup>2)"
  define sxy where "sxy = (\<Sum>i<n. (real i - xm) * (y i - ym))"
  have npos: "0 < n" using n by simp
  have sxx: "0 < sxx" unfolding sxx_def using n by (rule sxx_pos)
  have cx: "(\<Sum>i<n. real i - xm) = 0"
    unfolding xm_def using npos by (rule centred_sum_zero)
  have cy: "(\<Sum>i<n. y i - ym) = 0"
    unfolding ym_def using npos by (rule centred_sum_zero)
  have e_alt: "e i = (y i - ym) - b * (real i - xm)" for i
    by (simp add: e_def a_def algebra_simps)
  have se: "(\<Sum>i<n. e i) = 0"
  proof -
    have "(\<Sum>i<n. e i) = (\<Sum>i<n. (y i - ym) - b * (real i - xm))"
      by (simp only: e_alt)
    also have "\<dots> = (\<Sum>i<n. y i - ym) - (\<Sum>i<n. b * (real i - xm))"
      by (rule sum_subtractf)
    also have "(\<Sum>i<n. b * (real i - xm)) = b * (\<Sum>i<n. real i - xm)"
      by (rule sum_distrib_left [symmetric])
    finally show ?thesis by (simp only: cx cy)
  qed
  have bs: "b * sxx = sxy"
    using sxx by (simp add: b_def sxx_def sxy_def)
  have sec: "(\<Sum>i<n. e i * (real i - xm)) = 0"
  proof -
    have "(\<Sum>i<n. e i * (real i - xm)) =
        (\<Sum>i<n. (real i - xm) * (y i - ym) - b * (real i - xm)\<^sup>2)"
      by (rule sum.cong) (simp_all add: e_alt power2_eq_square algebra_simps)
    also have "\<dots> = sxy - b * sxx"
      by (simp add: sum_subtractf sum_distrib_left sxx_def sxy_def)
    finally show ?thesis by (simp add: bs)
  qed
  have sex: "(\<Sum>i<n. e i * real i) = 0"
  proof -
    have "(\<Sum>i<n. e i * real i) = (\<Sum>i<n. e i * (real i - xm) + xm * e i)"
      by (rule sum.cong) (simp_all add: algebra_simps)
    also have "\<dots> = (\<Sum>i<n. e i * (real i - xm)) + xm * (\<Sum>i<n. e i)"
      by (simp add: sum.distrib sum_distrib_left)
    finally show ?thesis by (simp add: se sec)
  qed
  have "(\<Sum>i<n. (y i - (a' + b' * real i))\<^sup>2) =
      (\<Sum>i<n. (e i)\<^sup>2 + (2 * (a - a') * e i + 2 * (b - b') * (e i * real i)) +
              ((a - a') + (b - b') * real i)\<^sup>2)"
    by (rule sum.cong) (simp_all add: e_def power2_eq_square algebra_simps)
  also have "\<dots> = (\<Sum>i<n. (e i)\<^sup>2) + (2 * (a - a') * (\<Sum>i<n. e i) +
      2 * (b - b') * (\<Sum>i<n. e i * real i)) + (\<Sum>i<n. ((a - a') + (b - b') * real i)\<^sup>2)"
    by (simp add: sum.distrib sum_distrib_left)
  finally show ?thesis
    unfolding se sex by (simp add: e_def)
qed

lemma fst_forecast:
  "fst (forecast m) =
     (if map snd m = [] then None
      else if length (map snd m) = 1 then Some (py_round2 (map snd m ! 0))
      else Some (py_round2 (linear_regression_predict
             (linear_regression_fit (map real [0..<length (map snd m)]) (map snd m))
             (real (length (map snd m))))))"
  by (simp add: forecast_def Let_def)

lemma square_sum_zero:
  fixes c d :: real
  assumes "2 \<le> n" and "(\<Sum>i<n. (c + d * real i)\<^sup>2) \<le> 0"
  shows "c = 0 \<and> d = 0"
proof -
  have "(\<Sum>i<n. (c + d * real i)\<^sup>2) = 0"
    using assms(2) by (simp add: sum_nonneg order_antisym)
  then have z: "\<forall>i\<in>{..<n}. (c + d * real i)\<^sup>2 = 0"
    by (subst (asm) sum_nonneg_eq_0_iff) simp_all
  have "0 \<in> {..<n}" and "1 \<in> {..<n}"
    using assms(1) by auto
  with z have "(c + d * real 0)\<^sup>2 = 0" and "(c + d * real 1)\<^sup>2 = 0"
    by blast+
  then show ?thesis by simp
qed

lemmas forecast_eval = predict_next_month_def forecast_def monthly_totals_def parse_dates_def
  dropna_date_def series_sum_def dropna_def linear_regression_fit_def
  linear_regression_predict_def py_round2_def round_half_even_def Let_def

section \<open>Claims: forecast\<close>

text \<open>
  C2, as amended. Let \<open>ys\<close> be the monthly totals of the table, in the order of the
  months. With no month the prediction is absent. With exactly one month it is that
  month's total rounded to 2 decimals. With \<open>n \<ge> 2\<close> months it is \<open>a + b * n\<close> rounded to
  2 decimals, where \<open>a + b * i\<close> is the least-squares line through the points
  \<open>(i, ys ! i)\<close> for \<open>i = 0, ..., n - 1\<close>: its squared error is at most that of any other line,
  and no other line attains it.
\<close>

theorem predict_next_month_spec:
  assumes "ys = map snd (monthly_totals L df)"
  shows "(ys = [] \<longrightarrow> fst (predict_next_month L df) = None) \<and>
    (\<forall>y. ys = [y] \<longrightarrow> fst (predict_next_month L df) = Some (py_round2 y)) \<and>
    (2 \<le> length ys \<longrightarrow>
      (\<exists>a b. fst (predict_next_month L df) = Some (py_round2 (a + b * real (length ys))) \<and>
         (\<forall>a' b'.
            (\<Sum>i<length ys. (ys ! i - (a + b * real i))\<^sup>2) \<le>
            (\<Sum>i<length ys. (ys ! i - (a' + b' * real i))\<^sup>2) \<and>
            ((\<Sum>i<length ys. (ys ! i - (a' + b' * real i))\<^sup>2) \<le>
             (\<Sum>i<length ys. (ys ! i - (a + b * real i))\<^sup>2) \<longrightarrow> a' = a \<and> b' = b))))"
proof (intro conjI allI impI)
  assume "ys = []"
  with assms have "map snd (monthly_totals L df) = []"
    by simp
  then show "fst (predict_next_month L df) = None"
    by (simp add: predict_next_month_def fst_forecast)
next
  fix y assume "ys = [y]"
  with assms have "map snd (monthly_totals L df) = [y]"
    by simp
  then show "fst (predict_next_month L df) = Some (py_round2 y)"
    by (simp add: predict_next_month_def fst_forecast)
next
  assume n: "2 \<le> length ys"
  define n' where "n' = length ys"
  define xm where "xm = (\<Sum>i<n'. real i) / real n'"
  define ym where "ym = (\<Sum>i<n'. ys ! i) / real n'"
  define b where "b = (\<Sum>i<n'. (real i - xm) * (ys ! i - ym)) / (\<Sum>i<n'. (real i - xm)\<^sup>2)"
  define a where "a = ym - b * xm"
  have fit: "linear_regression_fit (map real [0..<length ys]) ys = (a, b)"
    using linear_regression_fit_index [of ys]
    by (simp add: a_def b_def xm_def ym_def n'_def)
  have ne: "ys \<noteq> []" "length ys \<noteq> 1"
    using n by auto
  have "fst (forecast (monthly_totals L df)) = Some (py_round2 (linear_regression_predict
             (linear_regression_fit (map real [0..<length ys]) ys) (real (length ys))))"
    using ne unfolding fst_forecast assms [symmetric] by simp
  then have pred: "fst (predict_next_month L df) = Some (py_round2 (a + b * real (length ys)))"
    by (simp add: fit predict_next_month_def linear_regression_predict_def)
  have id: "(\<Sum>i<length ys. (ys ! i - (a' + b' * real i))\<^sup>2) =
         (\<Sum>i<length ys. (ys ! i - (a + b * real i))\<^sup>2) +
         (\<Sum>i<length ys. ((a - a') + (b - b') * real i)\<^sup>2)" for a' b'
    using least_squares [OF n, of "\<lambda>i. ys ! i" a' b']
    by (simp add: a_def b_def xm_def ym_def n'_def)
  have least: "(\<Sum>i<length ys. (ys ! i - (a + b * real i))\<^sup>2) \<le>
            (\<Sum>i<length ys. (ys ! i - (a' + b' * real i))\<^sup>2)" for a' b'
    by (simp add: id [of a' b'] sum_nonneg)
  have uniq: "a' = a \<and> b' = b"
    if "(\<Sum>i<length ys. (ys ! i - (a' + b' * real i))\<^sup>2) \<le>
             (\<Sum>i<length ys. (ys ! i - (a + b * real i))\<^sup>2)" for a' b'
  proof -
    have "(\<Sum>i<length ys. ((a - a') + (b - b') * real i)\<^sup>2) \<le> 0"
      using that by (simp add: id [of a' b'])
    with n have "a - a' = 0 \<and> b - b' = 0"
      by (rule square_sum_zero)
    then show ?thesis by simp
  qed
  show "\<exists>a b. fst (predict_next_month L df) = Some (py_round2 (a + b * real (length ys))) \<and>
         (\<forall>a' b'.
            (\<Sum>i<length ys. (ys ! i - (a + b * real i))\<^sup>2) \<le>
            (\<Sum>i<length ys. (ys ! i - (a' + b' * real i))\<^sup>2) \<and>
            ((\<Sum>i<length ys. (ys ! i - (a' + b' * real i))\<^sup>2) \<le>
             (\<Sum>i<length ys. (ys ! i - (a + b * real i))\<^sup>2) \<longrightarrow> a' = a \<and> b' = b))"
    using pred least uniq by blast
qed

text \<open>
  Instances: the monthly totals 100 then 200 give the prediction 300; an empty table
  gives none; a single month of 100 gives 100.
\<close>

theorem predict_next_month_spec_witness:
  "[100, 200] =
     map snd (monthly_totals iso_lib
       [\<lparr>date = Str ''2024-01-05'', category = Str ''Food'', amount = Some 60\<rparr>,
        \<lparr>date = Str ''2024-02-06'', category = Str ''Bills'', amount = Some 200\<rparr>,
        \<lparr>date = Str ''2024-01-29'', category = Str ''Food'', amount = Some 40\<rparr>]) \<and>
   fst (predict_next_month iso_lib
       [\<lparr>date = Str ''2024-01-05'', category = Str ''Food'', amount = Some 60\<rparr>,
        \<lparr>date = Str ''2024-02-06'', category = Str ''Bills'', amount = Some 200\<rparr>,
        \<lparr>date = Str ''2024-01-29'', category = Str ''Food'', amount = Some 40\<rparr>]) = Some 300 \<and>
   fst (predict_next_month iso_lib []) = None \<and>
   fst (predict_next_month iso_lib
       [\<lparr>date = Str ''2024-01-05'', category = Str ''Food'', amount = Some 100\<rparr>]) = Some 100"
proof -
  have m: "[100, 200] =
     map snd (monthly_totals iso_lib
       [\<lparr>date = Str ''2024-01-05'', category = Str ''Food'', amount = Some 60\<rparr>,
        \<lparr>date = Str ''2024-02-06'', category = Str ''Bills'', amount = Some 200\<rparr>,
        \<lparr>date = Str ''2024-01-29'', category = Str ''Food'', amount = Some 40\<rparr>])"
    by (simp add: monthly_totals_def parse_dates_def dropna_date_def series_sum_def dropna_def
        iso_eval Let_def)
  have e1: "fst (predict_next_month iso_lib
       [\<lparr>date = Str ''2024-01-05'', category = Str ''Food'', amount = Some 60\<rparr>,
        \<lparr>date = Str ''2024-02-06'', category = Str ''Bills'', amount = Some 200\<rparr>,
        \<lparr>date = Str ''2024-01-29'', category = Str ''Food'', amount = Some 40\<rparr>]) = Some 300"
    unfolding predict_next_month_def fst_forecast m [symmetric]
    by (simp add: linear_regression_fit_def linear_regression_predict_def py_round2_def
        round_half_even_def Let_def power2_eq_square)
  have e2: "fst (predict_next_month iso_lib []) = None"
    by (simp add: predict_next_month_def fst_forecast monthly_totals_def)
  have e3: "fst (predict_next_month iso_lib
       [\<lparr>date = Str ''2024-01-05'', category = Str ''Food'', amount = Some 100\<rparr>]) = Some 100"
    by (simp add: forecast_eval iso_eval)
  from predict_next_month_spec [OF m] m e1 e2 e3 show ?thesis
    by blast
qed

text \<open>
  C2 as stated fails: with one month the prediction is the rounded total, not the
  total. A single month with the total 10.123 gives the prediction 10.12.
\<close>

theorem single_month_prediction_rounded:
  "map snd (monthly_totals iso_lib
      [\<lparr>date = Str ''2024-01-05'', category = Str ''Food'', amount = Some 10.123\<rparr>]) = [10.123] \<and>
   fst (predict_next_month iso_lib
      [\<lparr>date = Str ''2024-01-05'', category = Str ''Food'', amount = Some 10.123\<rparr>]) = Some 10.12"
  by (simp add: forecast_eval iso_eval)

section \<open>Lemmas: the store\<close>

lemma nrows_ensure_column [simp]: "nrows (ensure_column c df) = nrows df"
  by (simp add: ensure_column_def)

lemma getitem_ensure_column:
  "getitem (ensure_column c df) k =
     (case getitem df k of
        Inr v \<Rightarrow> Inr v
      | Inl e \<Rightarrow> if k = c then Inr (replicate (nrows df) PyNone) else Inl KeyError)"
proof (cases "map_of (columns df) k")
  case None
  then have "k \<notin> fst ` set (columns df)"
    by (simp add: map_of_eq_None_iff)
  with None show ?thesis
    by (auto simp: getitem_def ensure_column_def map_add_def image_iff split: option.splits)
next
  case (Some v)
  then have "k \<in> fst ` set (columns df)"
    by (metis map_of_eq_None_iff option.distinct(1))
  with Some show ?thesis
    by (auto simp: getitem_def ensure_column_def map_add_def image_iff split: option.splits)
qed

lemma getitem_normalized:
  assumes "k \<in> set expected_cols"
  shows "getitem (fold ensure_column expected_cols df) k =
     Inr (case getitem df k of Inr v \<Rightarrow> v | Inl e \<Rightarrow> replicate (nrows df) PyNone)"
  using assms
  by (auto simp: expected_cols_def getitem_ensure_column split: sum.splits)

lemma getitem_normalized_cols:
  "getitem (fold ensure_column expected_cols df) ''date'' =
     Inr (case getitem df ''date'' of Inr v \<Rightarrow> v | Inl e \<Rightarrow> replicate (nrows df) PyNone)"
  "getitem (fold ensure_column expected_cols df) ''category'' =
     Inr (case getitem df ''category'' of Inr v \<Rightarrow> v | Inl e \<Rightarrow> replicate (nrows df) PyNone)"
  "getitem (fold ensure_column expected_cols df) ''amount'' =
     Inr (case getitem df ''amount'' of Inr v \<Rightarrow> v | Inl e \<Rightarrow> replicate (nrows df) PyNone)"
  by (rule getitem_normalized, simp add: expected_cols_def)+

lemma read_csv_nrows: "read_csv f = Inr raw \<Longrightarrow> nrows raw = length (body f)"
  by (auto simp: read_csv_def split: if_splits)

lemma read_csv_column_length:
  assumes "read_csv f = Inr raw" and "getitem raw k = Inr v"
  shows "length v = length (body f)"
proof -
  from assms(2) have "(k, v) \<in> set (columns raw)"
    by (auto simp: getitem_def split: option.splits dest: map_of_SomeD)
  with assms(1) show ?thesis
    by (auto simp: read_csv_def split: if_splits)
qed

lemma normalized_column_length:
  assumes "read_csv f = Inr raw"
  shows "length (case getitem raw k of Inr v \<Rightarrow> v | Inl e \<Rightarrow> replicate (nrows raw) PyNone) =
    length (body f)"
  using read_csv_nrows [OF assms] read_csv_column_length [OF assms]
  by (auto split: sum.splits)

lemma load_data_existing:
  assumes "read_csv f = Inr raw"
  defines "col \<equiv> \<lambda>k. case getitem raw k of Inr v \<Rightarrow> v | Inl e \<Rightarrow> replicate (nrows raw) PyNone"
  shows "load_data L (Some f) =
     Inr (map (\<lambda>(d, c, a). \<lparr>date = d, category = c, amount = a\<rparr>)
            (zip (col ''date'')
               (zip (col ''category'')
                  (map (\<lambda>c. fillna 0 (to_numeric L (col ''amount'') c)) (col ''amount'')))),
          Some f)"
  using assms(1)
  by (simp add: load_data_def getitem_normalized_cols col_def Let_def)

lemmas store_eval = load_data_def add_expense_def save_data_def init_file_def to_csv_def
  read_csv_def read_field_def na_values_def cell_text_def expected_cols_def ensure_column_def
  getitem_def fillna_def show_nat.simps Let_def

section \<open>Claims: the store\<close>

text \<open>
  C5. When the store does not exist, \<^verbatim>\<open>load\<close> returns the empty table and leaves a
  store whose header is date, category, amount and which has no rows. When the store
  exists and \<^verbatim>\<open>read_csv\<close> reads it, \<^verbatim>\<open>load\<close> returns one record per row of the file
  and leaves the store as it is; the amount of a record is the number
  \<^verbatim>\<open>to_numeric\<close> finds in the row's cell of the amount column (the column of NaN and text
  cells as read, or a column of \<^verbatim>\<open>None\<close> when the file has no amount column), and it is
  0.0 when \<^verbatim>\<open>to_numeric\<close> finds none.
\<close>

theorem load_data_spec:
  "load_data L None =
     Inr ([], Some \<lparr>header = [''date'', ''category'', ''amount''], body = []\<rparr>) \<and>
   (read_csv f = Inr raw \<longrightarrow>
      (\<exists>df. load_data L (Some f) = Inr (df, Some f) \<and> length df = length (body f) \<and>
         (\<forall>i<length (body f).
            amount (df ! i) =
              (let amounts = (case getitem raw ''amount'' of
                                Inr v \<Rightarrow> v
                              | Inl e \<Rightarrow> replicate (length (body f)) PyNone)
               in case to_numeric L amounts (amounts ! i) of
                    None \<Rightarrow> Some 0
                  | Some x \<Rightarrow> Some x))))"
proof (intro conjI impI)
  show "load_data L None =
     Inr ([], Some \<lparr>header = [''date'', ''category'', ''amount''], body = []\<rparr>)"
    by (simp add: load_data_def init_file_def to_csv_def expected_cols_def ensure_column_def
        getitem_def Let_def)
next
  assume r: "read_csv f = Inr raw"
  define col where
    "col = (\<lambda>k. case getitem raw k of Inr v \<Rightarrow> v | Inl e \<Rightarrow> replicate (nrows raw) PyNone)"
  have len: "length (col k) = length (body f)" for k
    unfolding col_def using r by (rule normalized_column_length)
  have n: "nrows raw = length (body f)"
    using r by (rule read_csv_nrows)
  let ?df = "map (\<lambda>(d, c, a). \<lparr>date = d, category = c, amount = a\<rparr>)
            (zip (col ''date'')
               (zip (col ''category'')
                  (map (\<lambda>c. fillna 0 (to_numeric L (col ''amount'') c)) (col ''amount''))))"
  have ld: "load_data L (Some f) = Inr (?df, Some f)"
    using load_data_existing [OF r, of L] by (simp add: col_def)
  have l: "length ?df = length (body f)"
    by (simp add: len)
  have a: "amount (?df ! i) = fillna 0 (to_numeric L (col ''amount'') (col ''amount'' ! i))"
    if "i < length (body f)" for i
    using that by (simp add: len)
  have amts: "(case getitem raw ''amount'' of
                 Inr v \<Rightarrow> v
               | Inl e \<Rightarrow> replicate (length (body f)) PyNone) = col ''amount''"
    unfolding col_def n ..
  have "\<forall>i<length (body f).
            amount (?df ! i) =
              (let amounts = (case getitem raw ''amount'' of
                                Inr v \<Rightarrow> v
                              | Inl e \<Rightarrow> replicate (length (body f)) PyNone)
               in case to_numeric L amounts (amounts ! i) of
                    None \<Rightarrow> Some 0
                  | Some x \<Rightarrow> Some x)"
    unfolding amts Let_def using a by (simp add: fillna_def)
  with ld l show "\<exists>df. load_data L (Some f) = Inr (df, Some f) \<and> length df = length (body f) \<and>
         (\<forall>i<length (body f).
            amount (df ! i) =
              (let amounts = (case getitem raw ''amount'' of
                                Inr v \<Rightarrow> v
                              | Inl e \<Rightarrow> replicate (length (body f)) PyNone)
               in case to_numeric L amounts (amounts ! i) of
                    None \<Rightarrow> Some 0
                  | Some x \<Rightarrow> Some x))"
    by blast
qed

text \<open>
  An instance: of four rows, one has the amount 12.5, one an empty amount, one the
  amount \<^verbatim>\<open>a lot\<close> and one no amount field; all four are loaded, the last three with
  the amount 0.
\<close>

theorem load_data_spec_witness:
  "read_csv \<lparr>header = [''date'', ''category'', ''amount''],
             body = [[''2024-01-05'', ''Food'', ''12.5''],
                     [''2024-01-06'', ''Bills'', ''''],
                     [''2024-01-07'', ''Fun'', ''a lot''],
                     [''2024-01-08'', ''Fun'']]\<rparr> =
     Inr \<lparr>nrows = 4, columns =
       [(''date'', [Str ''2024-01-05'', Str ''2024-01-06'', Str ''2024-01-07'', Str ''2024-01-08'']),
        (''category'', [Str ''Food'', Str ''Bills'', Str ''Fun'', Str ''Fun'']),
        (''amount'', [Str ''12.5'', NaN, Str ''a lot'', NaN])]\<rparr> \<and>
   load_data iso_lib
     (Some \<lparr>header = [''date'', ''category'', ''amount''],
             body = [[''2024-01-05'', ''Food'', ''12.5''],
                     [''2024-01-06'', ''Bills'', ''''],
                     [''2024-01-07'', ''Fun'', ''a lot''],
                     [''2024-01-08'', ''Fun'']]\<rparr>) =
     Inr ([\<lparr>date = Str ''2024-01-05'', category = Str ''Food'', amount = Some 12.5\<rparr>,
           \<lparr>date = Str ''2024-01-06'', category = Str ''Bills'', amount = Some 0\<rparr>,
           \<lparr>date = Str ''2024-01-07'', category = Str ''Fun'', amount = Some 0\<rparr>,
           \<lparr>date = Str ''2024-01-08'', category = Str ''Fun'', amount = Some 0\<rparr>],
          Some \<lparr>header = [''date'', ''category'', ''amount''],
             body = [[''2024-01-05'', ''Food'', ''12.5''],
                     [''2024-01-06'', ''Bills'', ''''],
                     [''2024-01-07'', ''Fun'', ''a lot''],
                     [''2024-01-08'', ''Fun'']]\<rparr>)"
proof -
  have r: "read_csv \<lparr>header = [''date'', ''category'', ''amount''],
             body = [[''2024-01-05'', ''Food'', ''12.5''],
                     [''2024-01-06'', ''Bills'', ''''],
                     [''2024-01-07'', ''Fun'', ''a lot''],
                     [''2024-01-08'', ''Fun'']]\<rparr> =
     Inr \<lparr>nrows = 4, columns =
       [(''date'', [Str ''2024-01-05'', Str ''2024-01-06'', Str ''2024-01-07'', Str ''2024-01-08'']),
        (''category'', [Str ''Food'', Str ''Bills'', Str ''Fun'', Str ''Fun'']),
        (''amount'', [Str ''12.5'', NaN, Str ''a lot'', NaN])]\<rparr>"
    by (simp add: read_csv_def read_field_def na_values_def upt_rec)
  have l: "load_data iso_lib
     (Some \<lparr>header = [''date'', ''category'', ''amount''],
             body = [[''2024-01-05'', ''Food'', ''12.5''],
                     [''2024-01-06'', ''Bills'', ''''],
                     [''2024-01-07'', ''Fun'', ''a lot''],
                     [''2024-01-08'', ''Fun'']]\<rparr>) =
     Inr ([\<lparr>date = Str ''2024-01-05'', category = Str ''Food'', amount = Some 12.5\<rparr>,
           \<lparr>date = Str ''2024-01-06'', category = Str ''Bills'', amount = Some 0\<rparr>,
           \<lparr>date = Str ''2024-01-07'', category = Str ''Fun'', amount = Some 0\<rparr>,
           \<lparr>date = Str ''2024-01-08'', category = Str ''Fun'', amount = Some 0\<rparr>],
          Some \<lparr>header = [''date'', ''category'', ''amount''],
             body = [[''2024-01-05'', ''Food'', ''12.5''],
                     [''2024-01-06'', ''Bills'', ''''],
                     [''2024-01-07'', ''Fun'', ''a lot''],
                     [''2024-01-08'', ''Fun'']]\<rparr>)"
    unfolding load_data_existing [OF r]
    by (simp add: getitem_def fillna_def iso_eval)
  from load_data_spec [of iso_lib] r l show ?thesis
    by blast
qed

text \<open>
  C1 fails on the code at the category \<^verbatim>\<open>NA\<close>: \<^verbatim>\<open>add\<close> on a store that does not exist
  returns and writes the record (2024-01-05, NA, 12.5), and the \<^verbatim>\<open>load\<close> that follows
  reads the field \<^verbatim>\<open>NA\<close> as a missing value, so the category of the last record is NaN.
\<close>

theorem add_expense_na_category:
  "add_expense iso_lib ''2024-01-05'' ''NA'' 12.5 None =
     Inr ([\<lparr>date = Str ''2024-01-05'', category = Str ''NA'', amount = Some 12.5\<rparr>],
          Some \<lparr>header = [''date'', ''category'', ''amount''],
                 body = [[''2024-01-05'', ''NA'', ''12.5'']]\<rparr>) \<and>
   load_data iso_lib
     (Some \<lparr>header = [''date'', ''category'', ''amount''],
            body = [[''2024-01-05'', ''NA'', ''12.5'']]\<rparr>) =
     Inr ([\<lparr>date = Str ''2024-01-05'', category = NaN, amount = Some 12.5\<rparr>],
          Some \<lparr>header = [''date'', ''category'', ''amount''],
                 body = [[''2024-01-05'', ''NA'', ''12.5'']]\<rparr>)"
  by (simp add: store_eval iso_eval upt_rec)

section \<open>Lemmas: objects and references\<close>

lemma select_rows_eq:
  "select_rows P (df, d, h) = (length h, filter P d, h @ [DatetimeFrame (filter P d)])"
  by (simp add: select_rows_def new_obj_def Let_def)

lemma select_rows_fresh:
  assumes "n \<le> df" and "df < length h"
  shows "\<exists>df' h'. select_rows P (df, d, h) = (df', filter P d, h') \<and>
           n \<le> df' \<and> df' < length h' \<and> take n h' = take n h \<and>
           h' ! df' = DatetimeFrame (filter P d)"
  using assms by (simp add: select_rows_eq)

lemma restrict_start_heap_fresh:
  assumes "n \<le> df" and "df < length h" and "h ! df = DatetimeFrame d"
  shows "case restrict_start L col sd d of
           Inl e \<Rightarrow> restrict_start_heap L col sd (df, d, h) = Inl (e, h)
         | Inr d' \<Rightarrow>
             \<exists>df' h'. restrict_start_heap L col sd (df, d, h) = Inr (df', d', h') \<and>
               n \<le> df' \<and> df' < length h' \<and> take n h' = take n h \<and>
               h' ! df' = DatetimeFrame d'"
  using assms
  by (auto simp: restrict_start_heap_def restrict_start_def select_rows_eq split: option.splits)

lemma restrict_end_heap_fresh:
  assumes "n \<le> df" and "df < length h" and "h ! df = DatetimeFrame d"
  shows "case restrict_end L col ed d of
           Inl e \<Rightarrow> restrict_end_heap L col ed (df, d, h) = Inl (e, h)
         | Inr d' \<Rightarrow>
             \<exists>df' h'. restrict_end_heap L col ed (df, d, h) = Inr (df', d', h') \<and>
               n \<le> df' \<and> df' < length h' \<and> take n h' = take n h \<and>
               h' ! df' = DatetimeFrame d'"
  using assms
  by (auto simp: restrict_end_heap_def restrict_end_def select_rows_eq split: option.splits)

lemma restrict_category_heap_fresh:
  assumes "n \<le> df" and "df < length h" and "h ! df = DatetimeFrame d"
  shows "\<exists>df' h'. restrict_category_heap L c (df, d, h) = (df', restrict_category L c d, h') \<and>
           n \<le> df' \<and> df' < length h' \<and> take n h' = take n h \<and>
           h' ! df' = DatetimeFrame (restrict_category L c d)"
  using assms
  by (auto simp: restrict_category_heap_def restrict_category_def select_rows_eq
      split: option.splits)

lemma get_frame_Frame: "r < length h \<Longrightarrow> h ! r = Frame t \<Longrightarrow> get_frame h r = Some t"
  by (simp add: get_frame_def)

lemma filter_data_heap_frame:
  assumes r: "r < length h" and t: "h ! r = Frame t"
  shows "\<exists>res h'. filter_data_heap L r sd ed c h = Some (res, h') \<and>
           take (length h) h' = h \<and>
           (case filter_data L t sd ed c of
              Inl e \<Rightarrow> res = Inl e
            | Inr rows \<Rightarrow> \<exists>r'. res = Inr r' \<and> get_frame h' r' = Some rows)"
proof (cases "t = []")
  case True
  with r t show ?thesis
    by (simp add: filter_data_heap_def get_frame_Frame filter_data_steps)
next
  case False
  define n where "n = length h"
  define col where "col = map date t"
  define d1 where "d1 = parse_dates L t"
  define h1 where "h1 = (h @ [Frame t])[n := DatetimeFrame d1]"
  have i1: "n \<le> n" "n < length h1" "h1 ! n = DatetimeFrame d1"
    and k1: "take n h1 = h"
    by (simp_all add: h1_def n_def)
  have unf: "filter_data_heap L r sd ed c h =
      (case restrict_start_heap L col sd (n, d1, h1) of
         Inl (e, h) \<Rightarrow> Some (Inl e, h)
       | Inr v \<Rightarrow>
           (case restrict_end_heap L col ed v of
              Inl (e, h) \<Rightarrow> Some (Inl e, h)
            | Inr v \<Rightarrow>
                let (df, d, h) = restrict_category_heap L c v;
                    h = h[df := Frame (map (dt_strftime L) d)]
                in Some (Inr df, h)))"
    using r t False
    by (simp add: filter_data_heap_def get_frame_Frame new_obj_def Let_def
        n_def [symmetric] col_def [symmetric] d1_def [symmetric] h1_def [symmetric])
  have fd: "filter_data L t sd ed c =
      (case restrict_start L col sd d1 of
         Inl e \<Rightarrow> Inl e
       | Inr d \<Rightarrow>
           (case restrict_end L col ed d of
              Inl e \<Rightarrow> Inl e
            | Inr d \<Rightarrow> Inr (map (dt_strftime L) (restrict_category L c d))))"
    using False unfolding col_def d1_def by (simp add: filter_data_steps)
  show ?thesis
  proof (cases "restrict_start L col sd d1")
    case (Inl e)
    with restrict_start_heap_fresh [OF i1, of L col sd]
    have "restrict_start_heap L col sd (n, d1, h1) = Inl (e, h1)"
      by simp
    with unf have "filter_data_heap L r sd ed c h = Some (Inl e, h1)"
      by simp
    moreover from fd Inl have "filter_data L t sd ed c = Inl e"
      by simp
    ultimately show ?thesis
      using k1 by (simp add: n_def)
  next
    case s: (Inr d2)
    with restrict_start_heap_fresh [OF i1, of L col sd]
    obtain df2 h2 where s2: "restrict_start_heap L col sd (n, d1, h1) = Inr (df2, d2, h2)"
      and i2: "n \<le> df2" "df2 < length h2" "h2 ! df2 = DatetimeFrame d2"
      and k2: "take n h2 = take n h1"
      by auto
    show ?thesis
    proof (cases "restrict_end L col ed d2")
      case (Inl e)
      with restrict_end_heap_fresh [OF i2, of L col ed]
      have "restrict_end_heap L col ed (df2, d2, h2) = Inl (e, h2)"
        by simp
      with unf s2 have "filter_data_heap L r sd ed c h = Some (Inl e, h2)"
        by simp
      moreover from fd s Inl have "filter_data L t sd ed c = Inl e"
        by simp
      ultimately show ?thesis
        using k1 k2 by (simp add: n_def)
    next
      case e: (Inr d3)
      with restrict_end_heap_fresh [OF i2, of L col ed]
      obtain df3 h3 where s3: "restrict_end_heap L col ed (df2, d2, h2) = Inr (df3, d3, h3)"
        and i3: "n \<le> df3" "df3 < length h3" "h3 ! df3 = DatetimeFrame d3"
        and k3: "take n h3 = take n h2"
        by auto
      from restrict_category_heap_fresh [OF i3, of L c]
      obtain df4 h4 where s4: "restrict_category_heap L c (df3, d3, h3) =
            (df4, restrict_category L c d3, h4)"
        and i4: "n \<le> df4" "df4 < length h4"
        and k4: "take n h4 = take n h3"
        by blast
      let ?res = "map (dt_strftime L) (restrict_category L c d3)"
      have run: "filter_data_heap L r sd ed c h = Some (Inr df4, h4[df4 := Frame ?res])"
        using unf s2 s3 s4 by simp
      have keep: "take (length h) (h4[df4 := Frame ?res]) = h"
        using i4(1) k1 k2 k3 k4 by (simp add: n_def [symmetric])
      have res: "get_frame (h4[df4 := Frame ?res]) df4 = Some ?res"
        using i4(2) by (simp add: get_frame_def)
      from fd s e have "filter_data L t sd ed c = Inr ?res"
        by simp
      with run keep res show ?thesis
        by simp
    qed
  qed
qed

lemma monthly_totals_heap_frame:
  assumes r: "r < length h" and t: "h ! r = Frame t"
  shows "\<exists>h'. monthly_totals_heap L r h = Some (monthly_totals L t, h') \<and>
           take (length h) h' = h"
  using r t
  by (simp add: monthly_totals_heap_def monthly_totals_def get_frame_Frame new_obj_def Let_def)

lemmas heap_eval = filter_data_heap_def get_frame_def new_obj_def select_rows_def
  restrict_start_heap_def restrict_end_heap_def restrict_category_heap_def
  compute_summary_heap_def monthly_totals_heap_def predict_next_month_heap_def

section \<open>Claims: objects and references\<close>

text \<open>
  C8. Let \<open>r\<close> refer to a table \<open>t\<close> in the heap \<open>h\<close>. \<^verbatim>\<open>filter\<close>, \<^verbatim>\<open>summarize\<close> and
  \<^verbatim>\<open>predictNextMonth\<close> called with \<open>r\<close> terminate, and after each call every object that
  was in the heap before it is unchanged, so \<open>r\<close> still refers to the same records in
  the same order; this also holds when \<^verbatim>\<open>filter\<close> raises. The results are those of the
  functions on tables: \<^verbatim>\<open>filter\<close> raises what \<open>filter_data L t\<close> raises, and the reference
  it returns refers to the table \<open>filter_data L t\<close> returns.
\<close>

theorem derived_operations_keep_input:
  assumes "r < length h" and "h ! r = Frame t"
  shows "(\<exists>res h'. filter_data_heap L r sd ed c h = Some (res, h') \<and>
            take (length h) h' = h \<and> h' ! r = Frame t \<and>
            (case filter_data L t sd ed c of
               Inl e \<Rightarrow> res = Inl e
             | Inr rows \<Rightarrow> \<exists>r'. res = Inr r' \<and> get_frame h' r' = Some rows)) \<and>
         compute_summary_heap r h = Some (compute_summary t, h) \<and>
         (\<exists>h'. predict_next_month_heap L r h = Some (predict_next_month L t, h') \<and>
            take (length h) h' = h \<and> h' ! r = Frame t)"
proof -
  have same: "h' ! r = Frame t" if "take (length h) h' = h" for h' :: "'a heap"
  proof -
    have "take (length h) h' ! r = h' ! r"
      using assms(1) by simp
    with that assms(2) show ?thesis
      by simp
  qed
  from filter_data_heap_frame [OF assms, of L sd ed c] same
  have f: "\<exists>res h'. filter_data_heap L r sd ed c h = Some (res, h') \<and>
            take (length h) h' = h \<and> h' ! r = Frame t \<and>
            (case filter_data L t sd ed c of
               Inl e \<Rightarrow> res = Inl e
             | Inr rows \<Rightarrow> \<exists>r'. res = Inr r' \<and> get_frame h' r' = Some rows)"
    by blast
  have s: "compute_summary_heap r h = Some (compute_summary t, h)"
    using assms by (simp add: compute_summary_heap_def get_frame_Frame)
  from monthly_totals_heap_frame [OF assms, of L] same
  have p: "\<exists>h'. predict_next_month_heap L r h = Some (predict_next_month L t, h') \<and>
            take (length h) h' = h \<and> h' ! r = Frame t"
    by (auto simp: predict_next_month_heap_def predict_next_month_def)
  from f s p show ?thesis
    by blast
qed

text \<open>
  An instance: a heap with one table of two records. \<^verbatim>\<open>filter\<close> with the start bound
  2024-01-01 and the category \<^verbatim>\<open>food\<close> makes three objects (the copy, whose date column
  was parsed, and the two selections, the last with its dates written back as text) and
  returns the last; with the start bound 2024-01-01T00:00:00Z it makes the copy and
  raises. The table at reference 0 is as before in both.
\<close>

theorem derived_operations_keep_input_witness:
  "0 < length [Frame [\<lparr>date = Str ''2024-01-15'', category = Str ''Food'', amount = Some 12\<rparr>,
                      \<lparr>date = Str ''2023-12-30'', category = Str ''Bills'', amount = Some 80\<rparr>]
               :: (nat \<times> bool) obj] \<and>
   filter_data_heap iso_lib 0 (Some ''2024-01-01'') None (Some ''food'')
     [Frame [\<lparr>date = Str ''2024-01-15'', category = Str ''Food'', amount = Some 12\<rparr>,
             \<lparr>date = Str ''2023-12-30'', category = Str ''Bills'', amount = Some 80\<rparr>]] =
     Some (Inr 3,
       [Frame [\<lparr>date = Str ''2024-01-15'', category = Str ''Food'', amount = Some 12\<rparr>,
               \<lparr>date = Str ''2023-12-30'', category = Str ''Bills'', amount = Some 80\<rparr>],
        DatetimeFrame [\<lparr>date = Some (20240115, False), category = Str ''Food'', amount = Some 12\<rparr>,
                       \<lparr>date = Some (20231230, False), category = Str ''Bills'', amount = Some 80\<rparr>],
        DatetimeFrame [\<lparr>date = Some (20240115, False), category = Str ''Food'', amount = Some 12\<rparr>],
        Frame [\<lparr>date = Str ''2024-01-15'', category = Str ''Food'', amount = Some 12\<rparr>]]) \<and>
   filter_data_heap iso_lib 0 (Some ''2024-01-01T00:00:00Z'') None None
     [Frame [\<lparr>date = Str ''2024-01-15'', category = Str ''Food'', amount = Some 12\<rparr>,
             \<lparr>date = Str ''2023-12-30'', category = Str ''Bills'', amount = Some 80\<rparr>]] =
     Some (Inl TypeError,
       [Frame [\<lparr>date = Str ''2024-01-15'', category = Str ''Food'', amount = Some 12\<rparr>,
               \<lparr>date = Str ''2023-12-30'', category = Str ''Bills'', amount = Some 80\<rparr>],
        DatetimeFrame [\<lparr>date = Some (20240115, False), category = Str ''Food'', amount = Some 12\<rparr>,
                       \<lparr>date = Some (20231230, False), category = Str ''Bills'', amount = Some 80\<rparr>]])"
  using derived_operations_keep_input
    [of 0 "[Frame [\<lparr>date = Str ''2024-01-15'', category = Str ''Food'', amount = Some 12\<rparr>,
                   \<lparr>date = Str ''2023-12-30'', category = Str ''Bills'', amount = Some 80\<rparr>]]"
        "[\<lparr>date = Str ''2024-01-15'', category = Str ''Food'', amount = Some 12\<rparr>,
          \<lparr>date = Str ''2023-12-30'', category = Str ''Bills'', amount = Some 80\<rparr>]"
        iso_lib "Some ''2024-01-01''" None "Some ''food''"]
  by (simp add: heap_eval filter_eval iso_eval)

end
